theory Spec2Isabelle
  imports Complex_Main "HOL-Library.Log_Nat" "HOL-Library.Product_Lexorder"
    "HOL-Library.List_Lexorder" "HOL-Library.Char_ord"
begin

section \<open>Tables\<close>

text \<open>
  Both programs of the repository work on pandas tables read from a spreadsheet. A cell of
  such a table is a text, a finite number (an Excel number: pandas reads it as an integer
  or a double), a truth value, a timestamp (nanoseconds since the epoch, pandas'
  \<^verbatim>\<open>datetime64[ns]\<close>) or missing (pandas' NaN/NaT for an empty cell).
\<close>

datatype cell = S string | N rat | B bool | T int | Missing

text \<open>
  A table (\<^verbatim>\<open>DataFrame\<close>) is kept column-wise: the row labels and the named columns in
  their order. A well-formed table has distinct column names and columns as long as the
  row labels.
\<close>

record frame =
  idx :: "nat list"
  cols :: "(string \<times> cell list) list"

definition wf_frame :: "frame \<Rightarrow> bool" where
  "wf_frame df \<longleftrightarrow>
     distinct (map fst (cols df)) \<and> list_all (\<lambda>c. length (snd c) = length (idx df)) (cols df)"

datatype error = KeyError | TypeError | ValueError | IndexError | OverflowError

text \<open>A statement that raises ends the run; otherwise the next one sees its value.\<close>

definition and_then :: "error + 'a \<Rightarrow> ('a \<Rightarrow> error + 'b) \<Rightarrow> error + 'b" where
  "and_then r f = (case r of Inl e \<Rightarrow> Inl e | Inr v \<Rightarrow> f v)"

text \<open>\<^verbatim>\<open>df[name]\<close>: the column of that name, or \<^verbatim>\<open>KeyError\<close>.\<close>

definition getcol :: "frame \<Rightarrow> string \<Rightarrow> error + cell list" where
  "getcol df name = (case map_of (cols df) name of None \<Rightarrow> Inl KeyError | Some vs \<Rightarrow> Inr vs)"

text \<open>
  \<^verbatim>\<open>df[name] = values\<close>: an existing column is overwritten in place, a new one is
  appended after the others.
\<close>

fun put :: "string \<Rightarrow> cell list \<Rightarrow> (string \<times> cell list) list \<Rightarrow> (string \<times> cell list) list" where
  "put name vs [] = [(name, vs)]"
| "put name vs ((n, ws) # cs) = (if n = name then (n, vs) # cs else (n, ws) # put name vs cs)"

definition setcol :: "frame \<Rightarrow> string \<Rightarrow> cell list \<Rightarrow> frame" where
  "setcol df name vs = df\<lparr>cols := put name vs (cols df)\<rparr>"

text \<open>
  Python's \<^verbatim>\<open>==\<close> on cell values, as \<^verbatim>\<open>in\<close> and dictionary lookup use it: a truth
  value equals the number 1 or 0. (A missing cell is the one NaN object of a text column
  and is found by identity.)
\<close>

fun norm_cell :: "cell \<Rightarrow> cell" where
  "norm_cell (B b) = N (if b then 1 else 0)"
| "norm_cell c = c"

definition py_in :: "cell \<Rightarrow> cell list \<Rightarrow> bool" where
  "py_in c cs \<longleftrightarrow> norm_cell c \<in> set (map norm_cell cs)"

text \<open>\<^verbatim>\<open>dict(pairs)\<close>: a later pair overwrites an earlier one with an equal key.\<close>

definition py_dict :: "(cell \<times> cell) list \<Rightarrow> cell \<rightharpoonup> cell" where
  "py_dict ps = map_of (rev (map (\<lambda>(k, v). (norm_cell k, v)) ps))"

definition dict_get :: "(cell \<rightharpoonup> cell) \<Rightarrow> cell \<Rightarrow> error + cell" where
  "dict_get m k = (case m (norm_cell k) of None \<Rightarrow> Inl KeyError | Some v \<Rightarrow> Inr v)"

text \<open>\<^verbatim>\<open>Series.apply(f)\<close> with an \<open>f\<close> that may raise: the first failure aborts.\<close>

fun apply_series :: "(cell \<Rightarrow> error + cell) \<Rightarrow> cell list \<Rightarrow> error + cell list" where
  "apply_series f [] = Inr []"
| "apply_series f (c # cs) =
     and_then (f c) (\<lambda>v. and_then (apply_series f cs) (\<lambda>vs. Inr (v # vs)))"

section \<open>The enricher (transform.py)\<close>

type_synonym workbook = "(string \<times> frame) list"

definition sheet :: "workbook \<Rightarrow> string \<Rightarrow> error + frame" where
  "sheet wb name = (case map_of wb name of None \<Rightarrow> Inl KeyError | Some f \<Rightarrow> Inr f)"

text \<open>
  The body of the script up to the write: the three sheets, the manager dictionary, the
  list of returned orders, and the two derived columns assigned to the Orders table.
\<close>

definition enrich :: "workbook \<Rightarrow> error + frame" where
  "enrich wb =
     and_then (sheet wb ''Orders'') (\<lambda>data.
     and_then (sheet wb ''People'') (\<lambda>data_reg_manager.
     and_then (sheet wb ''Returns'') (\<lambda>data_retention.
     and_then (getcol data_reg_manager ''Region'') (\<lambda>regions.
     and_then (getcol data_reg_manager ''Regional Manager'') (\<lambda>managers.
     and_then (getcol data_retention ''Order ID'') (\<lambda>list_retentions.
     and_then (getcol data ''Order ID'') (\<lambda>order_ids.
       let mapping_manager = py_dict (zip regions managers);
           data1 = setcol data ''is_retention''
                     (map (\<lambda>order_id. B (py_in order_id list_retentions)) order_ids)
       in and_then (getcol data1 ''Region'') (\<lambda>rs.
          and_then (apply_series (dict_get mapping_manager) rs) (\<lambda>ms.
            Inr (setcol data1 ''region_manager'' ms))))))))))"

text \<open>
  \<^verbatim>\<open>data.to_excel(path)\<close> with its defaults (\<^verbatim>\<open>index=True\<close>, \<^verbatim>\<open>header=True\<close>):
  the grid written has a header row and, as its first column, the row labels under an
  empty header. (Cell \<open>i\<close> of a column is read for every label, which is meaningful in a
  well-formed table; a table parsed from a sheet is one.)
\<close>

record grid =
  header :: "string list"
  body :: "cell list list"

definition row_at :: "frame \<Rightarrow> nat \<Rightarrow> cell list" where
  "row_at df i = map (\<lambda>c. snd c ! i) (cols df)"

definition to_excel :: "frame \<Rightarrow> grid" where
  "to_excel df =
     \<lparr>header = '''' # map fst (cols df),
      body = map (\<lambda>i. N (of_nat (idx df ! i)) # row_at df i) [0..<length (idx df)]\<rparr>"

definition transform_main :: "workbook \<Rightarrow> error + grid" where
  "transform_main wb = and_then (enrich wb) (\<lambda>data. Inr (to_excel data))"


section \<open>Double-precision numbers\<close>

text \<open>
  The dashboard computes with pandas' \<^verbatim>\<open>float64\<close>. A double is a finite value (a sign
  and a magnitude, so that the two zeros are kept apart), an infinity or NaN. Every
  arithmetic result is the exact result rounded to the nearest double, ties to even, as
  IEEE 754 prescribes: 53 significant bits, the smallest exponent \<open>-1074\<close>, overflow to
  infinity from \<open>2 ^ 1024\<close> on.
\<close>

datatype dbl = Fin bool rat | Inf bool | NaN

definition pow2 :: "int \<Rightarrow> rat" where
  "pow2 k = (if 0 \<le> k then 2 ^ nat k else 1 / 2 ^ nat (- k))"

text \<open>The exponent of a positive number: the greatest \<open>e\<close> with \<open>2 ^ e \<le> m\<close>.\<close>

definition ilog2 :: "rat \<Rightarrow> int" where
  "ilog2 m =
     (if 1 \<le> m then bitlen \<lfloor>m\<rfloor> - 1
      else let k = bitlen \<lfloor>1 / m\<rfloor> - 1 in if m = pow2 (- k) then - k else - k - 1)"

definition round_half_even :: "rat \<Rightarrow> int" where
  "round_half_even x =
     (let f = \<lfloor>x\<rfloor>; d = x - of_int f
      in if d < 1 / 2 then f else if 1 / 2 < d then f + 1 else if even f then f else f + 1)"

definition round_dbl :: "bool \<Rightarrow> rat \<Rightarrow> dbl" where
  "round_dbl s m =
     (if m = 0 then Fin s 0
      else let q = max (ilog2 m - 52) (- 1074);
               v = of_int (round_half_even (m / pow2 q)) * pow2 q
           in if pow2 1024 \<le> v then Inf s else Fin s v)"

definition dbl_of_rat :: "rat \<Rightarrow> dbl" where
  "dbl_of_rat r = round_dbl (r < 0) \<bar>r\<bar>"

fun signed :: "bool \<Rightarrow> rat \<Rightarrow> rat" where
  "signed s m = (if s then - m else m)"

fun fadd :: "dbl \<Rightarrow> dbl \<Rightarrow> dbl" where
  "fadd (Fin s1 m1) (Fin s2 m2) =
     (let v = signed s1 m1 + signed s2 m2
      in if v = 0 then Fin (s1 \<and> s2) 0 else round_dbl (v < 0) \<bar>v\<bar>)"
| "fadd (Fin s m) (Inf t) = Inf t"
| "fadd (Inf s) (Fin t m) = Inf s"
| "fadd (Inf s) (Inf t) = (if s = t then Inf s else NaN)"
| "fadd NaN y = NaN"
| "fadd x NaN = NaN"

fun fneg :: "dbl \<Rightarrow> dbl" where
  "fneg (Fin s m) = Fin (\<not> s) m"
| "fneg (Inf s) = Inf (\<not> s)"
| "fneg NaN = NaN"

definition fsub :: "dbl \<Rightarrow> dbl \<Rightarrow> dbl" where
  "fsub x y = fadd x (fneg y)"

fun fmul :: "dbl \<Rightarrow> dbl \<Rightarrow> dbl" where
  "fmul (Fin s1 m1) (Fin s2 m2) = round_dbl (s1 \<noteq> s2) (m1 * m2)"
| "fmul (Fin s m) (Inf t) = (if m = 0 then NaN else Inf (s \<noteq> t))"
| "fmul (Inf s) (Fin t m) = (if m = 0 then NaN else Inf (s \<noteq> t))"
| "fmul (Inf s) (Inf t) = Inf (s \<noteq> t)"
| "fmul NaN y = NaN"
| "fmul x NaN = NaN"

fun fdiv :: "dbl \<Rightarrow> dbl \<Rightarrow> dbl" where
  "fdiv (Fin s1 m1) (Fin s2 m2) =
     (if m2 = 0 then (if m1 = 0 then NaN else Inf (s1 \<noteq> s2))
      else round_dbl (s1 \<noteq> s2) (m1 / m2))"
| "fdiv (Fin s m) (Inf t) = Fin (s \<noteq> t) 0"
| "fdiv (Inf s) (Fin t m) = Inf (s \<noteq> t)"
| "fdiv (Inf s) (Inf t) = NaN"
| "fdiv NaN y = NaN"
| "fdiv x NaN = NaN"

text \<open>
  Python's \<^verbatim>\<open>f"{x:.1f}"\<close>: the exact value of the double rounded to one decimal place,
  ties to even, with the sign of the double (so a small negative value prints as
  \<^verbatim>\<open>-0.0\<close>); \<^verbatim>\<open>inf\<close>, \<^verbatim>\<open>-inf\<close> and \<^verbatim>\<open>nan\<close> for the others.
\<close>

fun digits :: "nat \<Rightarrow> string" where
  "digits n =
     (if n < 10 then [''0123456789'' ! n] else digits (n div 10) @ [''0123456789'' ! (n mod 10)])"

fun format_1f :: "dbl \<Rightarrow> string" where
  "format_1f (Fin s m) =
     (let n = nat (round_half_even (m * 10))
      in (if s then ''-'' else '''') @ digits (n div 10) @ ''.'' @ digits (n mod 10))"
| "format_1f (Inf s) = (if s then ''-inf'' else ''inf'')"
| "format_1f NaN = ''nan''"

section \<open>Dates\<close>

text \<open>
  A timestamp counts nanoseconds from 1970-01-01. Its calendar year and month are those of
  the proleptic Gregorian calendar, computed from the day number.
\<close>

definition ns_per_day :: int where
  "ns_per_day = 86400000000000"

definition civil_from_days :: "int \<Rightarrow> int \<times> int" where
  "civil_from_days days =
     (let z = days + 719468;
          era = z div 146097;
          doe = z - era * 146097;
          yoe = (doe - doe div 1460 + doe div 36524 - doe div 146096) div 365;
          doy = doe - (365 * yoe + yoe div 4 - yoe div 100);
          mp = (5 * doy + 2) div 153;
          m = (if mp < 10 then mp + 3 else mp - 9);
          y = yoe + era * 400 + (if m \<le> 2 then 1 else 0)
      in (y, m))"

definition dt_year :: "int \<Rightarrow> int" where
  "dt_year t = fst (civil_from_days (t div ns_per_day))"

definition dt_month :: "int \<Rightarrow> int" where
  "dt_month t = snd (civil_from_days (t div ns_per_day))"

definition MONTHS :: "string list" where
  "MONTHS = [''Jan'', ''Feb'', ''Mar'', ''Apr'', ''May'', ''Jun'',
             ''Jul'', ''Aug'', ''Sep'', ''Oct'', ''Nov'', ''Dec'']"

text \<open>\<^verbatim>\<open>strftime('%b')\<close>: the abbreviated month name.\<close>

definition month_abbr :: "int \<Rightarrow> string" where
  "month_abbr t = MONTHS ! nat (dt_month t - 1)"

text \<open>
  \<^verbatim>\<open>pd.to_datetime\<close> on a column of a sheet: a date cell is its timestamp, an empty cell
  is NaT. The date columns of the workbook hold date cells; parsing dates out of text or
  numbers is not part of this model, which ends in \<^verbatim>\<open>ValueError\<close> there.
\<close>

fun to_timestamp :: "cell \<Rightarrow> error + int option" where
  "to_timestamp (T t) = Inr (Some t)"
| "to_timestamp Missing = Inr None"
| "to_timestamp c = Inl ValueError"

fun to_datetime :: "cell list \<Rightarrow> error + int option list" where
  "to_datetime [] = Inr []"
| "to_datetime (c # cs) =
     and_then (to_timestamp c) (\<lambda>t. and_then (to_datetime cs) (\<lambda>ts. Inr (t # ts)))"

section \<open>The dashboard (app.py)\<close>

subsection \<open>Grouping and aggregating\<close>

text \<open>
  \<^verbatim>\<open>groupby\<close> drops rows whose key is missing and yields the distinct keys in ascending
  order: numbers by value, texts by code points, numbers before texts.
\<close>

fun cell_key :: "cell \<Rightarrow> nat \<times> rat \<times> string" where
  "cell_key (N r) = (0, r, '''')"
| "cell_key (B b) = (0, (if b then 1 else 0), '''')"
| "cell_key (T t) = (1, of_int t, '''')"
| "cell_key (S s) = (2, 0, s)"
| "cell_key Missing = (3, 0, '''')"

definition group_keys :: "cell list \<Rightarrow> cell list" where
  "group_keys ks = sort_key cell_key (remdups (map norm_cell (filter (\<lambda>k. k \<noteq> Missing) ks)))"

definition group_of :: "'k list \<Rightarrow> 'v list \<Rightarrow> 'k \<Rightarrow> 'v list" where
  "group_of ks vs k = map snd (filter (\<lambda>kv. fst kv = k) (zip ks vs))"

text \<open>
  The sum of a group is pandas' \<^verbatim>\<open>group_sum\<close>: it skips missing cells, counts a truth
  value as 1 or 0, starts from 0 and adds the doubles of the group in row order with Kahan's
  compensation: the rounding error of every addition is kept and taken off the next value
  (a compensation that is not a number is reset to 0). A column of integers is added
  exactly by pandas, which is the same as long as the sums stay below \<open>2 ^ 53\<close>. Text
  and dates are not summed in this model, which ends in \<^verbatim>\<open>TypeError\<close> there (pandas
  concatenates text, and the division of \<^verbatim>\<open>pct_change\<close> then raises \<^verbatim>\<open>TypeError\<close>).
  \<^verbatim>\<open>count\<close> is the number of cells that are not missing.
\<close>

fun cell_num :: "cell \<Rightarrow> error + dbl option" where
  "cell_num (N r) = Inr (Some (dbl_of_rat r))"
| "cell_num (B b) = Inr (Some (Fin False (if b then 1 else 0)))"
| "cell_num Missing = Inr None"
| "cell_num c = Inl TypeError"

definition kahan_step :: "dbl \<times> dbl \<Rightarrow> dbl \<Rightarrow> dbl \<times> dbl" where
  "kahan_step sc val =
     (let sumx = fst sc; compensation = snd sc;
          y = fsub val compensation;
          t = fadd sumx y;
          c = fsub (fsub t sumx) y
      in (t, if c = NaN then Fin False 0 else c))"

fun group_sum :: "dbl \<times> dbl \<Rightarrow> cell list \<Rightarrow> error + dbl" where
  "group_sum sc [] = Inr (fst sc)"
| "group_sum sc (c # cs) =
     and_then (cell_num c)
       (\<lambda>x. case x of None \<Rightarrow> group_sum sc cs | Some val \<Rightarrow> group_sum (kahan_step sc val) cs)"

definition sum_cells :: "cell list \<Rightarrow> error + dbl" where
  "sum_cells cs = group_sum (Fin False 0, Fin False 0) cs"

definition count_cells :: "cell list \<Rightarrow> nat" where
  "count_cells cs = length (filter (\<lambda>c. c \<noteq> Missing) cs)"

datatype verb = AggSum | AggCount

fun agg :: "verb \<Rightarrow> cell list \<Rightarrow> error + dbl" where
  "agg AggSum cs = sum_cells cs"
| "agg AggCount cs = Inr (dbl_of_rat (of_nat (count_cells cs)))"

fun agg_groups :: "verb \<Rightarrow> ('k \<times> cell list) list \<Rightarrow> error + ('k \<times> dbl) list" where
  "agg_groups metric [] = Inr []"
| "agg_groups metric ((k, cs) # gs) =
     and_then (agg metric cs) (\<lambda>v. and_then (agg_groups metric gs) (\<lambda>vs. Inr ((k, v) # vs)))"

text \<open>\<^verbatim>\<open>df.groupby('year')[col].agg([metric])[metric]\<close>: the metric of every year.\<close>

definition grouped :: "string \<Rightarrow> frame \<Rightarrow> verb \<Rightarrow> error + (cell \<times> dbl) list" where
  "grouped col df metric =
     and_then (getcol df ''year'') (\<lambda>years.
     and_then (getcol df col) (\<lambda>vals.
       agg_groups metric
         (map (\<lambda>k. (k, group_of (map norm_cell years) vals k)) (group_keys years))))"

subsection \<open>Year-over-year change\<close>

text \<open>
  The specification's formula for the change from a previous to a current metric,
  \<^verbatim>\<open>(cur - prev) / prev * 100\<close>, evaluated in doubles and formatted; it is compared below
  with what \<^verbatim>\<open>get_per_year_change\<close> computes.
\<close>

definition spec_delta :: "dbl \<Rightarrow> dbl \<Rightarrow> string" where
  "spec_delta cur prev = format_1f (fmul (fdiv (fsub cur prev) prev) (Fin False 100)) @ ''%''"

text \<open>
  \<^verbatim>\<open>pct_change\<close> is \<^verbatim>\<open>data / data.shift(1) - 1\<close>: each value divided by the one before
  it, minus one; the first value is divided by NaN. (Older versions of pandas first fill
  missing values of the data forward; a metric of a year is a count or a sum and is missing
  only after an overflow, which is left aside.)
\<close>

definition shift1 :: "dbl list \<Rightarrow> dbl list" where
  "shift1 xs = (if xs = [] then [] else NaN # butlast xs)"

definition pct_change :: "dbl list \<Rightarrow> dbl list" where
  "pct_change xs = map (\<lambda>xp. fsub (fdiv (fst xp) (snd xp)) (Fin False 1)) (zip xs (shift1 xs))"

definition fillna0 :: "dbl \<Rightarrow> dbl" where
  "fillna0 x = (if x = NaN then Fin False 0 else x)"

definition notnull :: "dbl \<Rightarrow> bool" where
  "notnull x \<longleftrightarrow> x \<noteq> NaN"

type_synonym series = "(cell \<times> string) list"

definition get_per_year_change :: "string \<Rightarrow> frame \<Rightarrow> verb \<Rightarrow> error + series" where
  "get_per_year_change col df metric =
     and_then (grouped col df metric) (\<lambda>grp_years.
       let changes = map (\<lambda>x. fmul x (Fin False 100)) (pct_change (map snd grp_years));
           filled = map fillna0 changes
       in Inr (zip (map fst grp_years)
                 (map (\<lambda>x. if notnull x then format_1f x @ ''%'' else ''NaN'') filled)))"

text \<open>The change series, written out: what is printed for a year, from its metric and the
  metric of the year before it (NaN for the first year).\<close>

definition delta_of :: "dbl \<Rightarrow> dbl \<Rightarrow> string" where
  "delta_of cur prev =
     format_1f (fillna0 (fmul (fsub (fdiv cur prev) (Fin False 1)) (Fin False 100))) @ ''%''"

subsection \<open>Loading\<close>

definition year_cell :: "int option \<Rightarrow> cell" where
  "year_cell d = (case d of None \<Rightarrow> Missing | Some t \<Rightarrow> N (of_int (dt_year t)))"

text \<open>
  \<^verbatim>\<open>abs(ship - order).dt.days\<close>: the whole days in the absolute difference of the two
  timestamps; missing when either date is.
\<close>

fun days_to_ship :: "int option \<times> int option \<Rightarrow> cell" where
  "days_to_ship (Some ship, Some order) = N (of_int (\<bar>ship - order\<bar> div ns_per_day))"
| "days_to_ship other = Missing"

text \<open>The table as \<^verbatim>\<open>load_data\<close> prepares it: the sheet with the two derived columns.\<close>

definition load_frame :: "frame \<Rightarrow> error + frame" where
  "load_frame raw =
     and_then (getcol raw ''Order Date'') (\<lambda>od.
     and_then (to_datetime od) (\<lambda>order_dates.
       let df1 = setcol raw ''year'' (map year_cell order_dates)
       in and_then (getcol df1 ''Ship Date'') (\<lambda>sd.
          and_then (to_datetime sd) (\<lambda>ship.
          and_then (getcol df1 ''Order Date'') (\<lambda>od2.
          and_then (to_datetime od2) (\<lambda>order.
            Inr (setcol df1 ''days to ship'' (map days_to_ship (zip ship order)))))))))"

definition load_data :: "frame \<Rightarrow> error + frame \<times> series \<times> series \<times> series" where
  "load_data raw =
     and_then (load_frame raw) (\<lambda>df.
     and_then (get_per_year_change ''Sales'' df AggSum) (\<lambda>sales.
     and_then (get_per_year_change ''Profit'' df AggSum) (\<lambda>profit.
     and_then (get_per_year_change ''Order ID'' df AggCount) (\<lambda>orders.
       Inr (df, sales, profit, orders)))))"

subsection \<open>The year filter\<close>

text \<open>
  The value of the year selector: the text \<^verbatim>\<open>All\<close>, a year, or the NaN that the selector
  offers when some order date is missing.
\<close>

datatype selected = All | Year int | NoYear

fun py_int :: "selected \<Rightarrow> error + int" where
  "py_int (Year y) = Inr y"
| "py_int other = Inl ValueError"

text \<open>\<^verbatim>\<open>df[mask]\<close>: the rows whose mask is true, with their labels.\<close>

definition keep :: "bool list \<Rightarrow> 'a list \<Rightarrow> 'a list" where
  "keep bs xs = map snd (filter fst (zip bs xs))"

definition select_rows :: "bool list \<Rightarrow> frame \<Rightarrow> frame" where
  "select_rows bs df =
     \<lparr>idx = keep bs (idx df), cols = map (\<lambda>c. (fst c, keep bs (snd c))) (cols df)\<rparr>"

definition filter_data :: "frame \<Rightarrow> selected \<Rightarrow> error + frame" where
  "filter_data df selected_year =
     (if selected_year \<noteq> All then
        and_then (getcol df ''year'') (\<lambda>years.
        and_then (py_int selected_year) (\<lambda>y.
          Inr (select_rows (map (\<lambda>c. norm_cell c = N (of_int y)) years) df)))
      else Inr df)"

text \<open>
  A well-formed table read row by row: every row with its label and its cells by column
  name. (The head and tail of a column are taken once per label, so the reading says
  nothing about a table whose columns are shorter than its labels; pandas has none.)
\<close>

fun rows_of :: "nat list \<Rightarrow> (string \<times> cell list) list \<Rightarrow> (nat \<times> (string \<times> cell) list) list" where
  "rows_of [] cs = []"
| "rows_of (i # is) cs =
     (i, map (\<lambda>c. (fst c, hd (snd c))) cs) # rows_of is (map (\<lambda>c. (fst c, tl (snd c))) cs)"

definition rows :: "frame \<Rightarrow> (nat \<times> (string \<times> cell) list) list" where
  "rows df = rows_of (idx df) (cols df)"

definition row_year_is :: "int \<Rightarrow> nat \<times> (string \<times> cell) list \<Rightarrow> bool" where
  "row_year_is y r \<longleftrightarrow>
     (case map_of (snd r) ''year'' of None \<Rightarrow> False | Some c \<Rightarrow> norm_cell c = N (of_int y))"

subsection \<open>The KPI cards\<close>

text \<open>
  The three cards: a headline value and the change shown under it. (The sales and profit
  totals are shown abbreviated by \<^verbatim>\<open>millify\<close>; the model keeps the number.)

  \<^verbatim>\<open>Series.sum\<close> adds the doubles of a whole column in an order that is numpy's choice
  (in blocks, pairwise for long columns), not the order of \<^verbatim>\<open>group_sum\<close>. Nothing below
  depends on that order, so the routine is a parameter \<open>series_sum\<close> of the functions
  that call it.
\<close>

record kpi =
  sales_total :: dbl
  sales_change :: string
  profit_total :: dbl
  profit_change :: string
  orders_total :: nat
  orders_change :: string

definition nunique :: "cell list \<Rightarrow> nat" where
  "nunique cs = length (remdups (map norm_cell (filter (\<lambda>c. c \<noteq> Missing) cs)))"

definition iloc_last :: "series \<Rightarrow> error + string" where
  "iloc_last s = (if s = [] then Inl IndexError else Inr (snd (last s)))"

fun selected_label :: "selected \<Rightarrow> cell" where
  "selected_label (Year y) = N (of_int y)"
| "selected_label NoYear = Missing"
| "selected_label All = S ''All''"

definition series_get :: "series \<Rightarrow> cell \<Rightarrow> string \<Rightarrow> string" where
  "series_get s k d = (case map_of s (norm_cell k) of None \<Rightarrow> d | Some v \<Rightarrow> v)"

definition change_of :: "series \<Rightarrow> selected \<Rightarrow> error + string" where
  "change_of s selected_year =
     (if selected_year = All then iloc_last s
      else Inr (series_get s (selected_label selected_year) ''0%''))"

definition create_kpi_metrics ::
    "(cell list \<Rightarrow> error + dbl) \<Rightarrow>
     frame \<Rightarrow> series \<Rightarrow> series \<Rightarrow> series \<Rightarrow> selected \<Rightarrow> error + kpi" where
  "create_kpi_metrics series_sum df grp_years_sales grp_year_profit grp_year_orders selected_year =
     and_then (getcol df ''Sales'') (\<lambda>sales.
     and_then (series_sum sales) (\<lambda>total_sales.
     and_then (getcol df ''Profit'') (\<lambda>profit.
     and_then (series_sum profit) (\<lambda>total_profit.
     and_then (getcol df ''Order ID'') (\<lambda>order_ids.
     and_then (change_of grp_years_sales selected_year) (\<lambda>sales_chg.
     and_then (change_of grp_year_profit selected_year) (\<lambda>profit_chg.
     and_then (change_of grp_year_orders selected_year) (\<lambda>orders_chg.
       Inr \<lparr>sales_total = total_sales, sales_change = sales_chg,
            profit_total = total_profit, profit_change = profit_chg,
            orders_total = nunique order_ids, orders_change = orders_chg\<rparr>))))))))"

text \<open>The part of \<^verbatim>\<open>main\<close> that leads to the cards: load, filter, compute.\<close>

definition main_kpi ::
    "(cell list \<Rightarrow> error + dbl) \<Rightarrow> frame \<Rightarrow> selected \<Rightarrow> error + kpi" where
  "main_kpi series_sum raw selected_year =
     and_then (load_data raw) (\<lambda>loaded.
     and_then (filter_data (fst loaded) selected_year) (\<lambda>df.
       create_kpi_metrics series_sum df (fst (snd loaded)) (fst (snd (snd loaded)))
         (snd (snd (snd loaded))) selected_year))"

subsection \<open>The orders change, read as a change of the number of rows\<close>

text \<open>
  The Orders card is described as showing a change computed from the number of rows of each
  year. That reading is written out here, to be compared with the series that
  \<^verbatim>\<open>load_data\<close> computes: the rows of every year, whether or not their Order ID is present,
  and the change from one year to the next as \<^verbatim>\<open>get_per_year_change\<close> prints it.
\<close>

definition rows_per_year :: "frame \<Rightarrow> error + (cell \<times> dbl) list" where
  "rows_per_year df =
     and_then (getcol df ''year'') (\<lambda>years.
       Inr (map (\<lambda>y. (y, dbl_of_rat (of_nat (length (filter (\<lambda>c. norm_cell c = y) years)))))
              (group_keys years)))"

definition row_count_change :: "frame \<Rightarrow> error + series" where
  "row_count_change df =
     and_then (rows_per_year df) (\<lambda>g.
       Inr (zip (map fst g)
              (map (\<lambda>xp. delta_of (fst xp) (snd xp)) (zip (map snd g) (shift1 (map snd g))))))"

section \<open>The charts of the dashboard (app.py)\<close>

subsection \<open>Programs on the table of the caller\<close>

text \<open>
  A chart function receives the table object of its caller, and what it does to that object
  is part of its behaviour. So a chart function is a program on the table: run on a table it
  raises, or it returns its result together with the table as it leaves it. The table is
  the last argument of every chart function for that reason. \<^verbatim>\<open>df[name]\<close> reads a
  column, \<^verbatim>\<open>df[name] = values\<close> assigns one, handing the table over whole reads it,
  and a computation on values that were read before does not touch it.
\<close>

type_synonym 'a prog = "frame \<Rightarrow> error + 'a \<times> frame"

definition yield :: "'a \<Rightarrow> 'a prog" where
  "yield x df = Inr (x, df)"

definition calc :: "error + 'a \<Rightarrow> 'a prog" where
  "calc r df = (case r of Inl e \<Rightarrow> Inl e | Inr x \<Rightarrow> Inr (x, df))"

definition seq :: "'a prog \<Rightarrow> ('a \<Rightarrow> 'b prog) \<Rightarrow> 'b prog" where
  "seq p f df = (case p df of Inl e \<Rightarrow> Inl e | Inr r \<Rightarrow> f (fst r) (snd r))"

definition column :: "string \<Rightarrow> cell list prog" where
  "column name df = calc (getcol df name) df"

definition assign :: "string \<Rightarrow> cell list \<Rightarrow> unit prog" where
  "assign name vs df = Inr ((), setcol df name vs)"

definition whole_table :: "frame prog" where
  "whole_table df = Inr (df, df)"

text \<open>A program leaves the table alone when every run that returns returns the table it
  was started on.\<close>

definition leaves_table :: "'a prog \<Rightarrow> bool" where
  "leaves_table p \<longleftrightarrow> (\<forall>df x df'. p df = Inr (x, df') \<longrightarrow> df' = df)"

text \<open>A loop that collects one result per element and stops at the first that raises.\<close>

fun for_each :: "('a \<Rightarrow> error + 'b) \<Rightarrow> 'a list \<Rightarrow> error + 'b list" where
  "for_each f [] = Inr []"
| "for_each f (x # xs) = and_then (f x) (\<lambda>v. and_then (for_each f xs) (\<lambda>vs. Inr (v # vs)))"

text \<open>\<^verbatim>\<open>d[key]\<close> on a dictionary literal, \<^verbatim>\<open>s.iloc[0]\<close>, and \<^verbatim>\<open>s.unique()\<close>: the distinct
  values in the order of their first occurrence.\<close>

definition dict_item :: "(cell \<times> 'a) list \<Rightarrow> cell \<Rightarrow> error + 'a" where
  "dict_item d k = (case map_of d (norm_cell k) of None \<Rightarrow> Inl KeyError | Some v \<Rightarrow> Inr v)"

definition iloc0 :: "'a list \<Rightarrow> error + 'a" where
  "iloc0 xs = (case xs of [] \<Rightarrow> Inl IndexError | x # rest \<Rightarrow> Inr x)"

definition unique :: "'a list \<Rightarrow> 'a list" where
  "unique xs = rev (remdups (rev xs))"

subsection \<open>Sales and profit by category\<close>

definition CUSTOM_COLORS :: "(cell \<times> string) list" where
  "CUSTOM_COLORS = [(S ''Furniture'', ''#005C53''), (S ''Office Supplies'', ''#9FC131''),
                    (S ''Technology'', ''#042940'')]"

text \<open>
  \<^verbatim>\<open>df.groupby('Category').agg({'Sales': 'sum', 'Profit': 'sum', 'Order ID': 'count'})\<close>
  with the index reset: one row per category, in ascending order, with the sum of its
  sales, the sum of its profits and the number of its Order IDs that are present.
\<close>

definition category_perf ::
    "cell list \<Rightarrow> cell list \<Rightarrow> cell list \<Rightarrow> cell list \<Rightarrow> error + (cell \<times> dbl \<times> dbl \<times> dbl) list" where
  "category_perf cats sales profits ids =
     and_then (agg_groups AggSum
                 (map (\<lambda>k. (k, group_of (map norm_cell cats) sales k)) (group_keys cats))) (\<lambda>s.
     and_then (agg_groups AggSum
                 (map (\<lambda>k. (k, group_of (map norm_cell cats) profits k)) (group_keys cats))) (\<lambda>p.
     and_then (agg_groups AggCount
                 (map (\<lambda>k. (k, group_of (map norm_cell cats) ids k)) (group_keys cats))) (\<lambda>n.
       Inr (zip (map fst s) (zip (map snd s) (zip (map snd p) (map snd n)))))))"

text \<open>
  One marker per category: the rows of the category are selected from the grouped table,
  the first of them gives the position, the size of the marker is the series of their
  counts divided by 50, and the colour is looked up in \<^verbatim>\<open>CUSTOM_COLORS\<close>.
\<close>

record scatter =
  sc_name :: cell
  sc_x :: dbl
  sc_y :: dbl
  sc_size :: "dbl list"
  sc_color :: string

definition category_trace :: "(cell \<times> dbl \<times> dbl \<times> dbl) list \<Rightarrow> cell \<Rightarrow> error + scatter" where
  "category_trace perf category =
     (let cat_data = filter (\<lambda>r. fst r = category) perf
      in and_then (iloc0 (map (\<lambda>r. fst (snd r)) cat_data)) (\<lambda>x.
         and_then (iloc0 (map (\<lambda>r. fst (snd (snd r))) cat_data)) (\<lambda>y.
         and_then (dict_item CUSTOM_COLORS category) (\<lambda>color.
           Inr \<lparr>sc_name = category, sc_x = x, sc_y = y,
                sc_size = map (\<lambda>r. fdiv (snd (snd (snd r))) (Fin False 50)) cat_data,
                sc_color = color\<rparr>))))"

definition create_category_performance_chart :: "scatter list prog" where
  "create_category_performance_chart =
     seq (column ''Category'') (\<lambda>cats.
     seq (column ''Sales'') (\<lambda>sales.
     seq (column ''Profit'') (\<lambda>profits.
     seq (column ''Order ID'') (\<lambda>ids.
     calc (and_then (category_perf cats sales profits ids) (\<lambda>perf.
             for_each (category_trace perf) (map fst perf)))))))"

subsection \<open>Orders by region and segment\<close>

text \<open>
  \<^verbatim>\<open>df.groupby(['Region', 'Segment']).size()\<close> with the index reset: the distinct pairs of
  a region and a segment, neither missing, in ascending order, each with the number of its
  rows.
\<close>

definition pair_keys :: "(cell \<times> cell) list \<Rightarrow> (cell \<times> cell) list" where
  "pair_keys ks =
     sort_key (\<lambda>k. (cell_key (fst k), cell_key (snd k)))
       (remdups (filter (\<lambda>k. fst k \<noteq> Missing \<and> snd k \<noteq> Missing) ks))"

definition order_dist :: "cell list \<Rightarrow> cell list \<Rightarrow> ((cell \<times> cell) \<times> nat) list" where
  "order_dist regions segments =
     (let ks = zip (map norm_cell regions) (map norm_cell segments)
      in map (\<lambda>k. (k, length (filter (\<lambda>x. x = k) ks))) (pair_keys ks))"

definition region_palette :: "(cell \<times> string) list" where
  "region_palette = [(S ''West'', ''#005C53''), (S ''East'', ''#9FC131''),
                     (S ''Central'', ''#DBF227''), (S ''South'', ''#D6FF79'')]"

text \<open>
  The colour of a segment is the colour of its region with an opacity: the two hexadecimal
  digits of red, green and blue are read as numbers and printed as the tuple
  \<^verbatim>\<open>rgba(r, g, b, 0.7)\<close>. The conversion is applied to the colours of the palette only,
  which are a \<^verbatim>\<open>#\<close> and six plain hexadecimal digits.
\<close>

definition hex_digit :: "char \<Rightarrow> nat option" where
  "hex_digit c =
     map_of (zip ''0123456789ABCDEFabcdef''
               [0, 1, 2, 3, 4, 5, 6, 7, 8, 9, 10, 11, 12, 13, 14, 15, 10, 11, 12, 13, 14, 15]) c"

fun int16_from :: "nat \<Rightarrow> string \<Rightarrow> error + nat" where
  "int16_from acc [] = Inr acc"
| "int16_from acc (c # cs) =
     (case hex_digit c of None \<Rightarrow> Inl ValueError | Some d \<Rightarrow> int16_from (16 * acc + d) cs)"

definition int16 :: "string \<Rightarrow> error + nat" where
  "int16 s = (if s = [] then Inl ValueError else int16_from 0 s)"

definition rgba :: "string \<Rightarrow> error + string" where
  "rgba region_color =
     (let h = dropWhile (\<lambda>c. c = CHR ''#'') region_color
      in and_then (int16 (take 2 h)) (\<lambda>r.
         and_then (int16 (take 2 (drop 2 h))) (\<lambda>g.
         and_then (int16 (take 2 (drop 4 h))) (\<lambda>b.
           Inr (''rgba('' @ digits r @ '', '' @ digits g @ '', '' @ digits b @ '', 0.7)'')))))"

text \<open>
  The sunburst is given four lists of equal length: a label, a parent, a value and a colour
  for every region, then for every pair of a region and a segment. The label of a pair is
  the text \<^verbatim>\<open>f"{region} - {segment}"\<close>; it is kept as the two values it is made of.
\<close>

datatype label = Plain cell | Dashed cell cell

record sunburst =
  sb_labels :: "label list"
  sb_parents :: "cell list"
  sb_values :: "nat list"
  sb_colors :: "string list"

definition region_entry ::
    "((cell \<times> cell) \<times> nat) list \<Rightarrow> cell \<Rightarrow> error + label \<times> cell \<times> nat \<times> string" where
  "region_entry pairs region =
     (let region_total = sum_list (map snd (filter (\<lambda>r. fst (fst r) = region) pairs))
      in and_then (dict_item region_palette region) (\<lambda>color.
           Inr (Plain region, S '''', region_total, color)))"

definition row_entry :: "(cell \<times> cell) \<times> nat \<Rightarrow> error + label \<times> cell \<times> nat \<times> string" where
  "row_entry row =
     and_then (dict_item region_palette (fst (fst row))) (\<lambda>region_color.
     and_then (rgba region_color) (\<lambda>color.
       Inr (Dashed (fst (fst row)) (snd (fst row)), fst (fst row), snd row, color)))"

definition create_order_distribution_chart :: "sunburst prog" where
  "create_order_distribution_chart =
     seq (column ''Region'') (\<lambda>regions.
     seq (column ''Segment'') (\<lambda>segments.
     calc (let pairs = order_dist regions segments
           in and_then (for_each (region_entry pairs) (unique (map (\<lambda>r. fst (fst r)) pairs))) (\<lambda>tops.
              and_then (for_each row_entry pairs) (\<lambda>leaves.
                Inr \<lparr>sb_labels = map fst (tops @ leaves),
                     sb_parents = map (\<lambda>e. fst (snd e)) (tops @ leaves),
                     sb_values = map (\<lambda>e. fst (snd (snd e))) (tops @ leaves),
                     sb_colors = map (\<lambda>e. snd (snd (snd e))) (tops @ leaves)\<rparr>)))))"

subsection \<open>Monthly sales\<close>

text \<open>
  \<^verbatim>\<open>create_monthly_sales_trend\<close> assigns two columns to the table it is given and then
  groups it. The figure has one trace per year (named \<^verbatim>\<open>str(year)\<close>): the months, the
  monthly sales and the colour of the line.
\<close>

record trace =
  trace_year :: cell
  trace_x :: "cell list"
  trace_y :: "dbl list"
  trace_color :: string

definition month_cell :: "int option \<Rightarrow> cell" where
  "month_cell d = (case d of None \<Rightarrow> Missing | Some t \<Rightarrow> S (month_abbr t))"

definition month_num_cell :: "int option \<Rightarrow> cell" where
  "month_num_cell d = (case d of None \<Rightarrow> Missing | Some t \<Rightarrow> N (of_int (dt_month t)))"

definition color_palette :: "cell \<Rightarrow> string" where
  "color_palette year =
     (case map_of [(N 2020, ''#005C53''), (N 2021, ''#9FC131''),
                   (N 2022, ''#DBF227''), (N 2023, ''#D6FF79'')] (norm_cell year)
      of None \<Rightarrow> ''#000000'' | Some c \<Rightarrow> c)"

text \<open>
  \<^verbatim>\<open>groupby(['year', 'Month', 'Month_num'])\<close>: the distinct key triples without a missing
  part, in ascending order; then \<^verbatim>\<open>sort_values(['year', 'Month_num'])\<close>.
\<close>

definition month_keys :: "(cell \<times> cell \<times> cell) list \<Rightarrow> (cell \<times> cell \<times> cell) list" where
  "month_keys ks =
     sort_key (\<lambda>k. (cell_key (fst k), cell_key (snd (snd k))))
       (sort_key (\<lambda>k. (cell_key (fst k), cell_key (fst (snd k)), cell_key (snd (snd k))))
          (remdups (filter (\<lambda>k. fst k \<noteq> Missing \<and> fst (snd k) \<noteq> Missing \<and> snd (snd k) \<noteq> Missing) ks)))"

definition monthly_sales ::
    "cell list \<Rightarrow> cell list \<Rightarrow> cell list \<Rightarrow> cell list \<Rightarrow> error + ((cell \<times> cell \<times> cell) \<times> dbl) list" where
  "monthly_sales years months nums sales =
     (let ks = zip (map norm_cell years) (zip (map norm_cell months) (map norm_cell nums))
      in agg_groups AggSum (map (\<lambda>k. (k, group_of ks sales k)) (month_keys ks)))"

definition traces :: "((cell \<times> cell \<times> cell) \<times> dbl) list \<Rightarrow> trace list" where
  "traces ms =
     map (\<lambda>year.
            let year_data = filter (\<lambda>r. fst (fst r) = year) ms
            in \<lparr>trace_year = year, trace_x = map (\<lambda>r. fst (snd (fst r))) year_data,
                trace_y = map snd year_data, trace_color = color_palette year\<rparr>)
         (unique (map (\<lambda>r. fst (fst r)) ms))"

definition create_monthly_sales_trend :: "trace list prog" where
  "create_monthly_sales_trend =
     seq (column ''Order Date'') (\<lambda>od.
     seq (calc (to_datetime od)) (\<lambda>dates.
     seq (assign ''Month'' (map month_cell dates)) (\<lambda>u.
     seq (column ''Order Date'') (\<lambda>od2.
     seq (calc (to_datetime od2)) (\<lambda>dates2.
     seq (assign ''Month_num'' (map month_num_cell dates2)) (\<lambda>v.
     seq (column ''year'') (\<lambda>years.
     seq (column ''Month'') (\<lambda>months.
     seq (column ''Month_num'') (\<lambda>nums.
     seq (column ''Sales'') (\<lambda>sales.
     calc (and_then (monthly_sales years months nums sales) (\<lambda>ms. Inr (traces ms)))))))))))))"

subsection \<open>Top products\<close>

text \<open>
  \<^verbatim>\<open>create_top_products_chart\<close>: the sum of the metric per product, the ten largest sums
  first (equal sums in the order of the product names), as the data of the bar chart that
  is shown. \<^verbatim>\<open>create_product_charts\<close> shows two of them.
\<close>

fun desc_key :: "dbl \<Rightarrow> nat \<times> rat" where
  "desc_key (Inf False) = (0, 0)"
| "desc_key (Fin s m) = (1, - signed s m)"
| "desc_key (Inf True) = (2, 0)"
| "desc_key NaN = (3, 0)"

definition nlargest :: "nat \<Rightarrow> ('k \<times> dbl) list \<Rightarrow> ('k \<times> dbl) list" where
  "nlargest n xs = take n (sort_key (\<lambda>kv. desc_key (snd kv)) (filter (\<lambda>kv. snd kv \<noteq> NaN) xs))"

record bar_chart =
  chart_title :: string
  chart_data :: "(cell \<times> dbl) list"

definition create_top_products_chart :: "string \<Rightarrow> string \<Rightarrow> bar_chart prog" where
  "create_top_products_chart metric title =
     seq (column ''Product Name'') (\<lambda>names.
     seq (column metric) (\<lambda>vals.
     calc (and_then (agg_groups AggSum
                       (map (\<lambda>k. (k, group_of (map norm_cell names) vals k)) (group_keys names)))
             (\<lambda>totals. Inr \<lparr>chart_title = title, chart_data = nlargest 10 totals\<rparr>))))"

definition create_product_charts :: "(bar_chart \<times> bar_chart) prog" where
  "create_product_charts =
     seq (create_top_products_chart ''Sales'' ''Top 10 Selling Products'') (\<lambda>sales_chart.
     seq (create_top_products_chart ''Profit'' ''Top 10 Most Profitable Products'') (\<lambda>profit_chart.
     yield (sales_chart, profit_chart)))"

subsection \<open>Shipping days\<close>

text \<open>
  The gauge shows the mean of \<^verbatim>\<open>days to ship\<close>, rounded to a whole number by
  \<^verbatim>\<open>np.round\<close> (a tie goes to the even neighbour) and converted by \<^verbatim>\<open>int\<close>, on an axis
  from the least to the greatest value of the column. The mean is the sum of the values
  that are present, added by \<open>series_sum\<close>, divided by their number, and not a number when
  there is none; \<^verbatim>\<open>int\<close> then raises \<^verbatim>\<open>ValueError\<close>. Least and greatest are taken of
  numbers only in this model, which ends in \<^verbatim>\<open>TypeError\<close> on text.
\<close>

definition series_mean :: "(cell list \<Rightarrow> error + dbl) \<Rightarrow> cell list \<Rightarrow> error + dbl" where
  "series_mean series_sum cs =
     and_then (series_sum cs) (\<lambda>total.
       Inr (if count_cells cs = 0 then NaN else fdiv total (dbl_of_rat (of_nat (count_cells cs)))))"

fun np_round :: "dbl \<Rightarrow> dbl" where
  "np_round (Fin s m) = Fin s (of_int (round_half_even m))"
| "np_round x = x"

fun int_of_dbl :: "dbl \<Rightarrow> error + int" where
  "int_of_dbl (Fin s m) = Inr (if s then - \<lfloor>m\<rfloor> else \<lfloor>m\<rfloor>)"
| "int_of_dbl (Inf s) = Inl OverflowError"
| "int_of_dbl NaN = Inl ValueError"

fun asc_key :: "dbl \<Rightarrow> nat \<times> rat" where
  "asc_key (Inf True) = (0, 0)"
| "asc_key (Fin s m) = (1, signed s m)"
| "asc_key (Inf False) = (2, 0)"
| "asc_key NaN = (3, 0)"

fun present :: "dbl option list \<Rightarrow> dbl list" where
  "present [] = []"
| "present (None # xs) = present xs"
| "present (Some x # xs) = x # present xs"

definition series_min :: "cell list \<Rightarrow> error + dbl" where
  "series_min cs =
     and_then (for_each cell_num cs) (\<lambda>xs.
       Inr (case present xs of [] \<Rightarrow> NaN
            | v # vs \<Rightarrow> fold (\<lambda>x m. if asc_key x < asc_key m then x else m) vs v))"

definition series_max :: "cell list \<Rightarrow> error + dbl" where
  "series_max cs =
     and_then (for_each cell_num cs) (\<lambda>xs.
       Inr (case present xs of [] \<Rightarrow> NaN
            | v # vs \<Rightarrow> fold (\<lambda>x m. if asc_key m < asc_key x then x else m) vs v))"

record gauge =
  gauge_value :: int
  gauge_range :: "dbl \<times> dbl"

definition create_shipping_gauge :: "(cell list \<Rightarrow> error + dbl) \<Rightarrow> gauge prog" where
  "create_shipping_gauge series_sum =
     seq (column ''days to ship'') (\<lambda>days.
     seq (calc (and_then (series_mean series_sum days) (\<lambda>m. int_of_dbl (np_round m)))) (\<lambda>value.
     seq (column ''days to ship'') (\<lambda>days1.
     seq (calc (series_min days1)) (\<lambda>lo.
     seq (column ''days to ship'') (\<lambda>days2.
     seq (calc (series_max days2)) (\<lambda>hi.
     yield \<lparr>gauge_value = value, gauge_range = (lo, hi)\<rparr>))))))"

subsection \<open>Sales of the categories over the years\<close>

text \<open>
  \<^verbatim>\<open>create_sales_trend_chart\<close> hands the table to the charting library together with an
  encoding: bars of the summed sales per year, coloured by category and labelled with the
  sum. The sums are formed when the chart is drawn, outside this program; the chart holds the table
  and the colours of the categories.
\<close>

record layered_chart =
  layered_title :: string
  layered_data :: frame
  color_domain :: "cell list"
  color_range :: "string list"

definition create_sales_trend_chart :: "layered_chart prog" where
  "create_sales_trend_chart =
     seq whole_table (\<lambda>data.
     yield \<lparr>layered_title = ''Sales trends for Product Categories over the years'',
          layered_data = data,
          color_domain = map fst CUSTOM_COLORS, color_range = map snd CUSTOM_COLORS\<rparr>)"

section \<open>Example tables\<close>

subsection \<open>A small Orders table for the dashboard\<close>

text \<open>
  Two line items of order A-1 on 2020-03-05 (one shipped four days later, one entered as
  shipped four days earlier) and one order A-2 on 2021-07-01, as the sheet has them and as
  \<^verbatim>\<open>load_data\<close> prepares them.
\<close>

definition raw_ex :: frame where
  "raw_ex = \<lparr>idx = [0, 1, 2],
     cols = [(''Order ID'', [S ''A-1'', S ''A-1'', S ''A-2'']),
             (''Order Date'', [T 1583366400000000000, T 1583366400000000000, T 1625097600000000000]),
             (''Ship Date'', [T 1583712000000000000, T 1583020800000000000, T 1625270400000000000]),
             (''Product Name'', [S ''Desk'', S ''Lamp'', S ''Desk'']),
             (''Sales'', [N 150, N 250, N 427]),
             (''Profit'', [N 10, N 20, N 30])]\<rparr>"

definition df_ex :: frame where
  "df_ex = \<lparr>idx = [0, 1, 2],
     cols = [(''Order ID'', [S ''A-1'', S ''A-1'', S ''A-2'']),
             (''Order Date'', [T 1583366400000000000, T 1583366400000000000, T 1625097600000000000]),
             (''Ship Date'', [T 1583712000000000000, T 1583020800000000000, T 1625270400000000000]),
             (''Product Name'', [S ''Desk'', S ''Lamp'', S ''Desk'']),
             (''Sales'', [N 150, N 250, N 427]),
             (''Profit'', [N 10, N 20, N 30]),
             (''year'', [N 2020, N 2020, N 2021]),
             (''days to ship'', [N 4, N 4, N 2])]\<rparr>"

text \<open>A table with the sales 0, 0 and 5 in three years.\<close>

definition zero_ex :: frame where
  "zero_ex = \<lparr>idx = [0, 1, 2],
     cols = [(''year'', [N 2020, N 2021, N 2022]), (''Sales'', [N 0, N 0, N 5])]\<rparr>"

text \<open>
  Sales in cents: 231.53, 147.14 and 21.33 in 2020, 176.48, 182.66 and 67.86 in 2021. The
  exact sums are 400 and 427.
\<close>

definition cents_ex :: frame where
  "cents_ex = \<lparr>idx = [0, 1, 2, 3, 4, 5],
     cols = [(''year'', [N 2020, N 2020, N 2020, N 2021, N 2021, N 2021]),
             (''Sales'', [N 231.53, N 147.14, N 21.33, N 176.48, N 182.66, N 67.86])]\<rparr>"

text \<open>
  The Orders sheet with the Order ID of its second row left empty, as the sheet has it and
  as \<^verbatim>\<open>load_data\<close> prepares it: two rows in 2020, one of them without an Order ID, and
  one row in 2021.
\<close>

definition blank_raw_ex :: frame where
  "blank_raw_ex = \<lparr>idx = [0, 1, 2],
     cols = [(''Order ID'', [S ''A-1'', Missing, S ''A-2'']),
             (''Order Date'', [T 1583366400000000000, T 1583366400000000000, T 1625097600000000000]),
             (''Ship Date'', [T 1583712000000000000, T 1583020800000000000, T 1625270400000000000]),
             (''Product Name'', [S ''Desk'', S ''Lamp'', S ''Desk'']),
             (''Sales'', [N 150, N 250, N 427]),
             (''Profit'', [N 10, N 20, N 30])]\<rparr>"

definition blank_ex :: frame where
  "blank_ex = \<lparr>idx = [0, 1, 2],
     cols = [(''Order ID'', [S ''A-1'', Missing, S ''A-2'']),
             (''Order Date'', [T 1583366400000000000, T 1583366400000000000, T 1625097600000000000]),
             (''Ship Date'', [T 1583712000000000000, T 1583020800000000000, T 1625270400000000000]),
             (''Product Name'', [S ''Desk'', S ''Lamp'', S ''Desk'']),
             (''Sales'', [N 150, N 250, N 427]),
             (''Profit'', [N 10, N 20, N 30]),
             (''year'', [N 2020, N 2020, N 2021]),
             (''days to ship'', [N 4, N 4, N 2])]\<rparr>"

text \<open>
  The loaded table with a category, a region and a segment for every row, and the same
  table after \<^verbatim>\<open>create_monthly_sales_trend\<close> has run on it.
\<close>

definition chart_ex :: frame where
  "chart_ex = \<lparr>idx = [0, 1, 2],
     cols = [(''Order ID'', [S ''A-1'', S ''A-1'', S ''A-2'']),
             (''Order Date'', [T 1583366400000000000, T 1583366400000000000, T 1625097600000000000]),
             (''Product Name'', [S ''Desk'', S ''Lamp'', S ''Desk'']),
             (''Category'', [S ''Furniture'', S ''Technology'', S ''Furniture'']),
             (''Region'', [S ''West'', S ''West'', S ''East'']),
             (''Segment'', [S ''Consumer'', S ''Corporate'', S ''Consumer'']),
             (''Sales'', [N 150, N 250, N 427]),
             (''Profit'', [N 10, N 20, N 30]),
             (''year'', [N 2020, N 2020, N 2021]),
             (''days to ship'', [N 4, N 4, N 2])]\<rparr>"

definition chart_month_ex :: frame where
  "chart_month_ex = \<lparr>idx = [0, 1, 2],
     cols = [(''Order ID'', [S ''A-1'', S ''A-1'', S ''A-2'']),
             (''Order Date'', [T 1583366400000000000, T 1583366400000000000, T 1625097600000000000]),
             (''Product Name'', [S ''Desk'', S ''Lamp'', S ''Desk'']),
             (''Category'', [S ''Furniture'', S ''Technology'', S ''Furniture'']),
             (''Region'', [S ''West'', S ''West'', S ''East'']),
             (''Segment'', [S ''Consumer'', S ''Corporate'', S ''Consumer'']),
             (''Sales'', [N 150, N 250, N 427]),
             (''Profit'', [N 10, N 20, N 30]),
             (''year'', [N 2020, N 2020, N 2021]),
             (''days to ship'', [N 4, N 4, N 2]),
             (''Month'', [S ''Mar'', S ''Mar'', S ''Jul'']),
             (''Month_num'', [N 3, N 3, N 7])]\<rparr>"
subsection \<open>A small workbook, and one whose second order is in a region without a manager\<close>

definition orders_ex :: frame where
  "orders_ex = \<lparr>idx = [0, 1],
     cols = [(''Order ID'', [S ''A-1'', S ''A-2'']), (''Region'', [S ''East'', S ''West''])]\<rparr>"

definition people_ex :: frame where
  "people_ex = \<lparr>idx = [0, 1],
     cols = [(''Regional Manager'', [S ''Ann'', S ''Bob'']), (''Region'', [S ''East'', S ''West''])]\<rparr>"

definition returns_ex :: frame where
  "returns_ex = \<lparr>idx = [0, 1, 2],
     cols = [(''Returned'', [S ''Yes'', S ''Yes'', S ''Yes'']),
             (''Order ID'', [S ''A-3'', S ''A-2'', S ''A-4''])]\<rparr>"

definition wb_ex :: workbook where
  "wb_ex = [(''Orders'', orders_ex), (''Returns'', returns_ex), (''People'', people_ex)]"

definition orders_north :: frame where
  "orders_north = \<lparr>idx = [0, 1],
     cols = [(''Order ID'', [S ''A-1'', S ''A-2'']), (''Region'', [S ''East'', S ''North''])]\<rparr>"

definition wb_north :: workbook where
  "wb_north = [(''Orders'', orders_north), (''Returns'', returns_ex), (''People'', people_ex)]"

section \<open>Properties of the enricher\<close>

subsection \<open>Sequencing, columns and series\<close>

lemma and_then_Inr: "and_then r f = Inr y \<longleftrightarrow> (\<exists>v. r = Inr v \<and> f v = Inr y)"
  by (cases r) (auto simp: and_then_def)

lemma and_then_simps [simp]: "and_then (Inl e) f = Inl e" "and_then (Inr v) f = f v"
  by (auto simp: and_then_def)

lemma map_of_put_same: "map_of (put name vs cs) name = Some vs"
  by (induction cs) auto

lemma map_of_put_other: "n \<noteq> name \<Longrightarrow> map_of (put name vs cs) n = map_of cs n"
  by (induction cs) auto

lemma put_fresh: "name \<notin> fst ` set cs \<Longrightarrow> put name vs cs = cs @ [(name, vs)]"
  by (induction cs) auto

lemma getcol_setcol_same: "getcol (setcol df name vs) name = Inr vs"
  by (simp add: getcol_def setcol_def map_of_put_same)

lemma getcol_setcol_other: "n \<noteq> name \<Longrightarrow> getcol (setcol df name vs) n = getcol df n"
  by (simp add: getcol_def setcol_def map_of_put_other)

lemma apply_series_Inr:
  "apply_series f cs = Inr vs \<Longrightarrow> length vs = length cs \<and> (\<forall>i<length cs. f (cs ! i) = Inr (vs ! i))"
proof (induction cs arbitrary: vs)
  case Nil
  then show ?case by simp
next
  case (Cons c cs)
  from Cons.prems obtain v ws where v: "f c = Inr v" and ws: "apply_series f cs = Inr ws" and vs: "vs = v # ws"
    by (auto simp: and_then_Inr)
  from Cons.IH [OF ws] v vs show ?case
    by (auto simp: nth_Cons split: nat.splits)
qed

lemma apply_series_total:
  "(\<forall>c\<in>set cs. \<exists>v. f c = Inr v) \<Longrightarrow> \<exists>vs. apply_series f cs = Inr vs"
  by (induction cs) auto

lemma apply_series_Inl: "apply_series f cs = Inl e \<Longrightarrow> \<exists>c\<in>set cs. f c = Inl e"
proof (induction cs)
  case Nil
  then show ?case by simp
next
  case (Cons a cs)
  show ?case
  proof (cases "f a")
    case (Inl e')
    with Cons.prems show ?thesis by simp
  next
    case (Inr v)
    with Cons.prems have "apply_series f cs = Inl e"
      by (cases "apply_series f cs") simp_all
    with Cons.IH show ?thesis by auto
  qed
qed

lemma py_dict_ran: "py_dict (zip ks vs) k = Some v \<Longrightarrow> v \<in> set vs"
proof -
  assume "py_dict (zip ks vs) k = Some v"
  then have "(k, v) \<in> set (map (\<lambda>(k, v). (norm_cell k, v)) (zip ks vs))"
    unfolding py_dict_def by (metis map_of_SomeD set_rev)
  then obtain k' where "(k', v) \<in> set (zip ks vs)" by auto
  then show ?thesis by (rule set_zip_rightD)
qed

text \<open>
  Python's \<^verbatim>\<open>in\<close> finds a cell in a list when some cell of the list is equal to it;
  for a text identifier that is plain membership in the list.
\<close>

lemma py_in_iff: "py_in c cs \<longleftrightarrow> (\<exists>r\<in>set cs. norm_cell c = norm_cell r)"
  by (auto simp: py_in_def)

lemma norm_cell_text: "norm_cell c = S s \<longleftrightarrow> c = S s" "S s = norm_cell c \<longleftrightarrow> c = S s"
  by (cases c; auto)+

lemma py_in_text: "py_in (S s) cs \<longleftrightarrow> S s \<in> set cs"
  by (auto simp: py_in_def image_iff norm_cell_text)

subsection \<open>What a successful run went through\<close>

lemma enrich_InrD:
  assumes "enrich wb = Inr out"
  obtains data ppl ret regions managers rets ids rs ms where
    "sheet wb ''Orders'' = Inr data" "sheet wb ''People'' = Inr ppl" "sheet wb ''Returns'' = Inr ret"
    "getcol ppl ''Region'' = Inr regions" "getcol ppl ''Regional Manager'' = Inr managers"
    "getcol ret ''Order ID'' = Inr rets" "getcol data ''Order ID'' = Inr ids"
    "getcol (setcol data ''is_retention'' (map (\<lambda>order_id. B (py_in order_id rets)) ids)) ''Region'' = Inr rs"
    "apply_series (dict_get (py_dict (zip regions managers))) rs = Inr ms"
    "out = setcol (setcol data ''is_retention'' (map (\<lambda>order_id. B (py_in order_id rets)) ids)) ''region_manager'' ms"
proof -
  obtain data where 1: "sheet wb ''Orders'' = Inr data"
    using assms by (cases "sheet wb ''Orders''") (simp_all add: enrich_def)
  obtain ppl where 2: "sheet wb ''People'' = Inr ppl"
    using assms 1 by (cases "sheet wb ''People''") (simp_all add: enrich_def)
  obtain ret where 3: "sheet wb ''Returns'' = Inr ret"
    using assms 1 2 by (cases "sheet wb ''Returns''") (simp_all add: enrich_def)
  obtain regions where 4: "getcol ppl ''Region'' = Inr regions"
    using assms 1 2 3 by (cases "getcol ppl ''Region''") (simp_all add: enrich_def)
  obtain managers where 5: "getcol ppl ''Regional Manager'' = Inr managers"
    using assms 1 2 3 4 by (cases "getcol ppl ''Regional Manager''") (simp_all add: enrich_def)
  obtain rets where 6: "getcol ret ''Order ID'' = Inr rets"
    using assms 1 2 3 4 5 by (cases "getcol ret ''Order ID''") (simp_all add: enrich_def)
  obtain ids where 7: "getcol data ''Order ID'' = Inr ids"
    using assms 1 2 3 4 5 6 by (cases "getcol data ''Order ID''") (simp_all add: enrich_def)
  let ?d1 = "setcol data ''is_retention'' (map (\<lambda>order_id. B (py_in order_id rets)) ids)"
  obtain rs where 8: "getcol ?d1 ''Region'' = Inr rs"
    using assms 1 2 3 4 5 6 7 by (cases "getcol ?d1 ''Region''") (simp_all add: enrich_def Let_def)
  obtain ms where 9: "apply_series (dict_get (py_dict (zip regions managers))) rs = Inr ms"
    using assms 1 2 3 4 5 6 7 8
    by (cases "apply_series (dict_get (py_dict (zip regions managers))) rs") (simp_all add: enrich_def Let_def)
  have "out = setcol ?d1 ''region_manager'' ms"
    using assms 1 2 3 4 5 6 7 8 9 by (simp add: enrich_def Let_def)
  with 1 2 3 4 5 6 7 8 9 show ?thesis by (rule that)
qed

subsection \<open>The two example workbooks, run\<close>

lemmas ex_defs = orders_ex_def people_ex_def returns_ex_def wb_ex_def orders_north_def wb_north_def
  sheet_def getcol_def setcol_def py_in_def py_dict_def dict_get_def enrich_def to_excel_def
  transform_main_def row_at_def

lemma enrich_wb_ex:
  "enrich wb_ex = Inr \<lparr>idx = [0, 1],
     cols = [(''Order ID'', [S ''A-1'', S ''A-2'']), (''Region'', [S ''East'', S ''West'']),
             (''is_retention'', [B False, B True]), (''region_manager'', [S ''Ann'', S ''Bob''])]\<rparr>"
  by (simp add: ex_defs)

lemma enrich_wb_north: "enrich wb_north = Inl KeyError"
  by (simp add: ex_defs)

subsection \<open>The returned-order flag\<close>

text \<open>
  Claim C2. Whenever the enricher succeeds, the \<^verbatim>\<open>Order ID\<close> column of the result is the
  one of the Orders sheet, and the \<^verbatim>\<open>is_retention\<close> column holds one truth value per order
  row: true if and only if the row's Order ID is equal to some Order ID of the Returns
  sheet, and false for every other row. For an Order ID that is a text, this is membership
  of that text in the set of the Order IDs of the Returns sheet.
\<close>

theorem enrich_is_retention:
  assumes "enrich wb = Inr out"
  shows "\<exists>data ret ids rets flags.
           sheet wb ''Orders'' = Inr data \<and> sheet wb ''Returns'' = Inr ret \<and>
           getcol data ''Order ID'' = Inr ids \<and> getcol ret ''Order ID'' = Inr rets \<and>
           getcol out ''Order ID'' = Inr ids \<and>
           getcol out ''is_retention'' = Inr flags \<and> length flags = length ids \<and>
           (\<forall>i<length ids.
              (flags ! i = B True \<or> flags ! i = B False) \<and>
              (flags ! i = B True \<longleftrightarrow> (\<exists>r\<in>set rets. norm_cell (ids ! i) = norm_cell r)) \<and>
              (\<forall>s. ids ! i = S s \<longrightarrow> (flags ! i = B True \<longleftrightarrow> S s \<in> set rets)))"
proof -
  from assms obtain data ppl ret regions managers rets ids rs ms where
    d: "sheet wb ''Orders'' = Inr data" and r: "sheet wb ''Returns'' = Inr ret"
    and rc: "getcol ret ''Order ID'' = Inr rets" and ic: "getcol data ''Order ID'' = Inr ids"
    and out: "out = setcol (setcol data ''is_retention'' (map (\<lambda>order_id. B (py_in order_id rets)) ids)) ''region_manager'' ms"
    by (rule enrich_InrD)
  let ?flags = "map (\<lambda>order_id. B (py_in order_id rets)) ids"
  have 1: "getcol out ''Order ID'' = Inr ids"
    by (simp add: out getcol_setcol_other ic)
  have 2: "getcol out ''is_retention'' = Inr ?flags"
    by (simp add: out getcol_setcol_other getcol_setcol_same)
  have 3: "length ?flags = length ids" by simp
  have 4: "\<forall>i<length ids.
              (?flags ! i = B True \<or> ?flags ! i = B False) \<and>
              (?flags ! i = B True \<longleftrightarrow> (\<exists>r\<in>set rets. norm_cell (ids ! i) = norm_cell r)) \<and>
              (\<forall>s. ids ! i = S s \<longrightarrow> (?flags ! i = B True \<longleftrightarrow> S s \<in> set rets))"
    by (auto simp: py_in_iff py_in_text [symmetric])
  from d r ic rc 1 2 3 4 show ?thesis by blast
qed

theorem enrich_is_retention_witness:
  "enrich wb_ex = Inr \<lparr>idx = [0, 1],
     cols = [(''Order ID'', [S ''A-1'', S ''A-2'']), (''Region'', [S ''East'', S ''West'']),
             (''is_retention'', [B False, B True]), (''region_manager'', [S ''Ann'', S ''Bob''])]\<rparr> \<and>
   getcol returns_ex ''Order ID'' = Inr [S ''A-3'', S ''A-2'', S ''A-4''] \<and>
   (\<exists>flags. flags = [B False, B True] \<and>
      (flags ! 0 = B True \<longleftrightarrow> S ''A-1'' \<in> set [S ''A-3'', S ''A-2'', S ''A-4'']) \<and>
      (flags ! 1 = B True \<longleftrightarrow> S ''A-2'' \<in> set [S ''A-3'', S ''A-2'', S ''A-4'']))"
proof -
  from enrich_is_retention [OF enrich_wb_ex] obtain data ret ids rets flags where
    s: "sheet wb_ex ''Orders'' = Inr data" "sheet wb_ex ''Returns'' = Inr ret"
    and c: "getcol data ''Order ID'' = Inr ids" "getcol ret ''Order ID'' = Inr rets"
    and f: "getcol \<lparr>idx = [0, 1],
     cols = [(''Order ID'', [S ''A-1'', S ''A-2'']), (''Region'', [S ''East'', S ''West'']),
             (''is_retention'', [B False, B True]), (''region_manager'', [S ''Ann'', S ''Bob''])]\<rparr>
        ''is_retention'' = Inr flags"
    and a: "\<forall>i<length ids. \<forall>s. ids ! i = S s \<longrightarrow> (flags ! i = B True \<longleftrightarrow> S s \<in> set rets)"
    by blast
  from s have "data = orders_ex" "ret = returns_ex" by (simp_all add: sheet_def wb_ex_def)
  with c have ids: "ids = [S ''A-1'', S ''A-2'']" and rets: "rets = [S ''A-3'', S ''A-2'', S ''A-4'']"
    by (simp_all add: getcol_def orders_ex_def returns_ex_def)
  from f have fl: "flags = [B False, B True]" by (simp add: getcol_def)
  from a [rule_format, of 0 "''A-1''"] a [rule_format, of 1 "''A-2''"]
  have "(flags ! 0 = B True \<longleftrightarrow> S ''A-1'' \<in> set rets)" "(flags ! 1 = B True \<longleftrightarrow> S ''A-2'' \<in> set rets)"
    by (simp_all add: ids)
  with fl rets enrich_wb_ex show ?thesis
    by (simp add: getcol_def returns_ex_def)
qed

subsection \<open>The regional manager\<close>

text \<open>
  Claim C6. With the three sheets and their columns present: if the Region of some order is
  not a key of the staff dictionary, the run ends in \<^verbatim>\<open>KeyError\<close> and produces no
  table; if every Region is a key, the run succeeds; and in every table the run produces,
  each row's \<^verbatim>\<open>region_manager\<close> is the dictionary's value for that row's Region, a
  cell of the People sheet's \<^verbatim>\<open>Regional Manager\<close> column. No default manager exists.
\<close>

theorem enrich_region_lookup:
  assumes "sheet wb ''Orders'' = Inr data" and "sheet wb ''People'' = Inr ppl"
    and "sheet wb ''Returns'' = Inr ret"
    and "getcol ppl ''Region'' = Inr regions" and "getcol ppl ''Regional Manager'' = Inr managers"
    and "getcol ret ''Order ID'' = Inr rets" and "getcol data ''Order ID'' = Inr ids"
    and "getcol data ''Region'' = Inr rs"
  shows "((\<exists>r\<in>set rs. py_dict (zip regions managers) (norm_cell r) = None)
            \<longrightarrow> enrich wb = Inl KeyError) \<and>
         ((\<forall>r\<in>set rs. py_dict (zip regions managers) (norm_cell r) \<noteq> None)
            \<longrightarrow> (\<exists>out. enrich wb = Inr out)) \<and>
         (\<forall>out. enrich wb = Inr out \<longrightarrow>
            (\<exists>ms. getcol out ''region_manager'' = Inr ms \<and> length ms = length rs \<and>
               (\<forall>i<length rs. py_dict (zip regions managers) (norm_cell (rs ! i)) = Some (ms ! i)
                              \<and> ms ! i \<in> set managers)))"
proof -
  let ?m = "py_dict (zip regions managers)"
  let ?d1 = "setcol data ''is_retention'' (map (\<lambda>order_id. B (py_in order_id rets)) ids)"
  have reg: "getcol ?d1 ''Region'' = Inr rs"
    using assms(8) by (simp add: getcol_setcol_other)
  have unfold: "enrich wb = and_then (apply_series (dict_get ?m) rs)
                  (\<lambda>ms. Inr (setcol ?d1 ''region_manager'' ms))"
    using assms(1-7) reg by (simp add: enrich_def Let_def)
  have get: "dict_get ?m r = Inr v \<longleftrightarrow> ?m (norm_cell r) = Some v" for r v
    by (simp add: dict_get_def split: option.splits)
  have fail: "dict_get ?m r = Inl e \<Longrightarrow> e = KeyError" for r e
    by (simp add: dict_get_def split: option.splits)
  have a: "enrich wb = Inl KeyError" if "\<exists>r\<in>set rs. ?m (norm_cell r) = None"
  proof (cases "apply_series (dict_get ?m) rs")
    case (Inl e)
    with apply_series_Inl [OF Inl] fail show ?thesis by (auto simp: unfold)
  next
    case (Inr ms)
    from that obtain i where "i < length rs" "?m (norm_cell (rs ! i)) = None"
      by (auto simp: in_set_conv_nth)
    with apply_series_Inr [OF Inr] get show ?thesis by auto
  qed
  have b: "\<exists>out. enrich wb = Inr out" if "\<forall>r\<in>set rs. ?m (norm_cell r) \<noteq> None"
  proof -
    from that have "\<forall>c\<in>set rs. \<exists>v. dict_get ?m c = Inr v" by (auto simp: get)
    from apply_series_total [OF this] show ?thesis by (auto simp: unfold)
  qed
  have c: "\<exists>ms. getcol out ''region_manager'' = Inr ms \<and> length ms = length rs \<and>
               (\<forall>i<length rs. ?m (norm_cell (rs ! i)) = Some (ms ! i) \<and> ms ! i \<in> set managers)"
    if "enrich wb = Inr out" for out
  proof -
    from that obtain ms where ms: "apply_series (dict_get ?m) rs = Inr ms"
      and out: "out = setcol ?d1 ''region_manager'' ms"
      by (auto simp: unfold and_then_Inr)
    from apply_series_Inr [OF ms] have len: "length ms = length rs"
      and each: "\<forall>i<length rs. ?m (norm_cell (rs ! i)) = Some (ms ! i)"
      by (auto simp: get)
    from each have "\<forall>i<length rs. ms ! i \<in> set managers"
      using py_dict_ran by blast
    with len each show ?thesis by (auto simp: out getcol_setcol_same)
  qed
  from a b c show ?thesis by blast
qed

theorem enrich_region_lookup_witness:
  "py_dict (zip [S ''East'', S ''West''] [S ''Ann'', S ''Bob'']) (norm_cell (S ''North'')) = None \<and>
   enrich wb_north = Inl KeyError"
proof -
  have n: "py_dict (zip [S ''East'', S ''West''] [S ''Ann'', S ''Bob'']) (norm_cell (S ''North'')) = None"
    by (simp add: py_dict_def)
  have "((\<exists>r\<in>set [S ''East'', S ''North''].
            py_dict (zip [S ''East'', S ''West''] [S ''Ann'', S ''Bob'']) (norm_cell r) = None)
          \<longrightarrow> enrich wb_north = Inl KeyError)"
    using enrich_region_lookup [of wb_north orders_north people_ex returns_ex
        "[S ''East'', S ''West'']" "[S ''Ann'', S ''Bob'']" "[S ''A-3'', S ''A-2'', S ''A-4'']"
        "[S ''A-1'', S ''A-2'']"
        "[S ''East'', S ''North'']"]
    by (simp add: wb_north_def orders_north_def people_ex_def returns_ex_def sheet_def getcol_def)
  with n show ?thesis by simp
qed

subsection \<open>The spreadsheet written\<close>

text \<open>
  The claim that the output holds the original columns, the two derived ones and nothing
  else fails on the example workbook: the grid written starts with a column of row labels
  under an empty header, which is no column of the Orders sheet.
\<close>

theorem to_excel_counterexample:
  "transform_main wb_ex = Inr \<lparr>header = ['''', ''Order ID'', ''Region'', ''is_retention'', ''region_manager''],
      body = [[N 0, S ''A-1'', S ''East'', B False, S ''Ann''],
              [N 1, S ''A-2'', S ''West'', B True, S ''Bob'']]\<rparr> \<and>
   ['''', ''Order ID'', ''Region'', ''is_retention'', ''region_manager'']
     \<noteq> map fst (cols orders_ex) @ [''is_retention'', ''region_manager'']"
  by (simp add: ex_defs)

text \<open>
  Claim C8, amended. When the Orders sheet has no column named \<^verbatim>\<open>is_retention\<close> or
  \<^verbatim>\<open>region_manager\<close> already, the grid written consists of a leading column of row labels
  under an empty header, then every column of the Orders sheet with its cells unchanged and
  in the original order, then the two derived columns \<^verbatim>\<open>is_retention\<close> and
  \<^verbatim>\<open>region_manager\<close>, and nothing else.
\<close>

theorem transform_main_grid:
  assumes "sheet wb ''Orders'' = Inr data"
    and "''is_retention'' \<notin> fst ` set (cols data)"
    and "''region_manager'' \<notin> fst ` set (cols data)"
    and "transform_main wb = Inr g"
  shows "\<exists>out flags ms.
           enrich wb = Inr out \<and> getcol out ''is_retention'' = Inr flags \<and>
           getcol out ''region_manager'' = Inr ms \<and>
           header g = '''' # map fst (cols data) @ [''is_retention'', ''region_manager''] \<and>
           body g = map (\<lambda>i. N (of_nat (idx data ! i)) # row_at data i @ [flags ! i, ms ! i])
                      [0..<length (idx data)]"
proof -
  from assms(4) obtain out where e: "enrich wb = Inr out" and g: "g = to_excel out"
    by (auto simp: transform_main_def and_then_Inr)
  from e obtain data' flags ms where d': "sheet wb ''Orders'' = Inr data'"
    and out: "out = setcol (setcol data' ''is_retention'' flags) ''region_manager'' ms"
    by (rule enrich_InrD)
  from d' assms(1) have [simp]: "data' = data" by simp
  have c: "cols out = cols data @ [(''is_retention'', flags), (''region_manager'', ms)]"
    using assms(2,3) by (simp add: out setcol_def put_fresh)
  have i: "idx out = idx data" by (simp add: out setcol_def)
  have "getcol out ''is_retention'' = Inr flags"
    by (simp add: out getcol_setcol_same getcol_setcol_other)
  moreover have "getcol out ''region_manager'' = Inr ms"
    by (simp add: out getcol_setcol_same)
  moreover have "header g = '''' # map fst (cols data) @ [''is_retention'', ''region_manager'']"
    by (simp add: g to_excel_def c)
  moreover have "body g = map (\<lambda>i. N (of_nat (idx data ! i)) # row_at data i @ [flags ! i, ms ! i])
                      [0..<length (idx data)]"
    by (simp add: g to_excel_def c i row_at_def)
  ultimately show ?thesis using e by blast
qed

theorem transform_main_grid_witness:
  "\<exists>out flags ms.
     enrich wb_ex = Inr out \<and> getcol out ''is_retention'' = Inr flags \<and>
     getcol out ''region_manager'' = Inr ms \<and>
     ['''', ''Order ID'', ''Region'', ''is_retention'', ''region_manager'']
        = '''' # map fst (cols orders_ex) @ [''is_retention'', ''region_manager''] \<and>
     [[N 0, S ''A-1'', S ''East'', B False, S ''Ann''], [N 1, S ''A-2'', S ''West'', B True, S ''Bob'']]
        = map (\<lambda>i. N (of_nat (idx orders_ex ! i)) # row_at orders_ex i @ [flags ! i, ms ! i])
            [0..<length (idx orders_ex)]"
proof -
  have g: "transform_main wb_ex = Inr \<lparr>header = ['''', ''Order ID'', ''Region'', ''is_retention'', ''region_manager''],
      body = [[N 0, S ''A-1'', S ''East'', B False, S ''Ann''],
              [N 1, S ''A-2'', S ''West'', B True, S ''Bob'']]\<rparr>"
    by (simp add: ex_defs)
  have s: "sheet wb_ex ''Orders'' = Inr orders_ex" by (simp add: wb_ex_def sheet_def)
  have a: "''is_retention'' \<notin> fst ` set (cols orders_ex)" by (simp add: orders_ex_def)
  have b: "''region_manager'' \<notin> fst ` set (cols orders_ex)" by (simp add: orders_ex_def)
  from transform_main_grid [OF s a b g] show ?thesis by simp
qed

section \<open>Properties of the double arithmetic\<close>

lemma pow2_powi: "pow2 k = power_int 2 k"
  by (simp add: pow2_def power_int_def power_one_over inverse_eq_divide)

lemma pow2_pos [simp]: "0 < pow2 k"
  by (simp add: pow2_powi)

lemma pow2_strict_mono: "a < b \<Longrightarrow> pow2 a < pow2 b"
  by (simp add: pow2_powi power_int_strict_increasing)

lemma pow2_mono: "a \<le> b \<Longrightarrow> pow2 a \<le> pow2 b"
  by (simp add: pow2_powi power_int_increasing)

lemma pow2_add: "pow2 (a + b) = pow2 a * pow2 b"
  by (simp add: pow2_powi power_int_add)

lemma pow2_nat: "0 \<le> k \<Longrightarrow> pow2 k = 2 ^ nat k"
  by (simp add: pow2_def)

lemma pow2_neg: "pow2 (- k) = 1 / pow2 k"
  by (simp add: pow2_powi power_int_minus_divide)

lemma ilog2_bounds:
  assumes "0 < m"
  shows "pow2 (ilog2 m) \<le> m \<and> m < pow2 (ilog2 m + 1)"
proof (cases "1 \<le> m")
  case True
  let ?f = "\<lfloor>m\<rfloor>"
  from True have f: "0 < ?f" by simp
  from bitlen_bounds [OF f] have lo: "2 ^ nat (bitlen ?f - 1) \<le> ?f" and hi: "?f < 2 ^ nat (bitlen ?f)"
    by auto
  from f have b1: "1 \<le> bitlen ?f" by (auto simp: bitlen_alt_def)
  have "pow2 (bitlen ?f - 1) = of_int (2 ^ nat (bitlen ?f - 1))"
    using b1 by (simp add: pow2_nat)
  also have "\<dots> \<le> of_int ?f" using lo by (simp only: of_int_le_iff)
  also have "\<dots> \<le> m" by simp
  finally have 1: "pow2 (bitlen ?f - 1) \<le> m" .
  from hi have "?f + 1 \<le> 2 ^ nat (bitlen ?f)" by simp
  then have "of_int (?f + 1) \<le> (of_int (2 ^ nat (bitlen ?f)) :: rat)" by (simp only: of_int_le_iff)
  moreover have "m < of_int (?f + 1)" by linarith
  ultimately have "m < of_int (2 ^ nat (bitlen ?f))" by linarith
  also have "\<dots> = pow2 (bitlen ?f - 1 + 1)" using b1 by (simp add: pow2_nat)
  finally have 2: "m < pow2 (bitlen ?f - 1 + 1)" .
  from 1 2 True show ?thesis by (simp add: ilog2_def)
next
  case False
  define x where "x = 1 / m"
  from False assms have x1: "1 < x" by (simp add: x_def)
  let ?f = "\<lfloor>x\<rfloor>"
  define k where "k = bitlen ?f - 1"
  from x1 have f: "0 < ?f" by simp
  from bitlen_bounds [OF f] have lo: "2 ^ nat (bitlen ?f - 1) \<le> ?f" and hi: "?f < 2 ^ nat (bitlen ?f)"
    by auto
  from f have b1: "1 \<le> bitlen ?f" by (auto simp: bitlen_alt_def)
  then have k0: "0 \<le> k" by (simp add: k_def)
  have "pow2 k = of_int (2 ^ nat (bitlen ?f - 1))"
    using b1 by (simp add: pow2_nat k_def)
  also have "\<dots> \<le> of_int ?f" using lo by (simp only: of_int_le_iff)
  also have "\<dots> \<le> x" by simp
  finally have 1: "pow2 k \<le> x" .
  from hi have "?f + 1 \<le> 2 ^ nat (bitlen ?f)" by simp
  then have "of_int (?f + 1) \<le> (of_int (2 ^ nat (bitlen ?f)) :: rat)" by (simp only: of_int_le_iff)
  moreover have "x < of_int (?f + 1)" by linarith
  ultimately have "x < of_int (2 ^ nat (bitlen ?f))" by linarith
  also have "\<dots> = pow2 (k + 1)" using b1 by (simp add: pow2_nat k_def)
  finally have 2: "x < pow2 (k + 1)" .
  have m: "m = 1 / x" using assms by (simp add: x_def)
  from 1 have up: "m \<le> pow2 (- k)"
    unfolding m pow2_neg using pow2_pos [of k] x1 by (simp add: frac_le)
  from 2 have low: "pow2 (- k - 1) < m"
  proof -
    have "1 / pow2 (k + 1) < 1 / x" using 2 x1 by (simp add: frac_less2)
    moreover have "pow2 (- k - 1) = 1 / pow2 (k + 1)" using pow2_neg [of "k + 1"] by simp
    ultimately show ?thesis by (simp add: m)
  qed
  have il: "ilog2 m = (if m = pow2 (- k) then - k else - k - 1)"
    using False by (simp add: ilog2_def x_def k_def Let_def)
  show ?thesis
  proof (cases "m = pow2 (- k)")
    case True
    with il have "ilog2 m = - k" by simp
    moreover have "pow2 (- k) < pow2 (- k + 1)" by (rule pow2_strict_mono) simp
    ultimately show ?thesis using True by simp
  next
    case F: False
    with il have "ilog2 m = - k - 1" by simp
    moreover from F up have "m < pow2 (- k)" by simp
    ultimately show ?thesis using low by simp
  qed
qed

lemma ilog2_eqI:
  assumes "pow2 e \<le> m" and "m < pow2 (e + 1)"
  shows "ilog2 m = e"
proof -
  have "0 < m" using assms(1) pow2_pos [of e] by linarith
  from ilog2_bounds [OF this] have a: "pow2 (ilog2 m) \<le> m" and b: "m < pow2 (ilog2 m + 1)"
    by auto
  have "\<not> ilog2 m < e"
  proof
    assume "ilog2 m < e"
    then have "pow2 (ilog2 m + 1) \<le> pow2 e" by (intro pow2_mono) simp
    with b assms(1) show False by linarith
  qed
  moreover have "\<not> e < ilog2 m"
  proof
    assume "e < ilog2 m"
    then have "pow2 (e + 1) \<le> pow2 (ilog2 m)" by (intro pow2_mono) simp
    with a assms(2) show False by linarith
  qed
  ultimately show ?thesis by simp
qed

lemma round_half_even_eqI:
  assumes "\<bar>x - of_int n\<bar> < 1 / 2"
  shows "round_half_even x = n"
proof (cases "of_int n \<le> x")
  case True
  with assms have "\<lfloor>x\<rfloor> = n" by (intro floor_unique) linarith+
  with True assms show ?thesis by (simp add: round_half_even_def Let_def)
next
  case False
  have "x - of_int n > - (1 / 2)" using assms by (simp only: abs_less_iff) simp
  then have "of_int (n - 1) \<le> x" by simp
  moreover have "x < of_int (n - 1) + 1" using False by simp
  ultimately have f: "\<lfloor>x\<rfloor> = n - 1" by (rule floor_unique)
  have "1 / 2 < x - of_int (n - 1)" using \<open>x - of_int n > - (1 / 2)\<close> by simp
  with f show ?thesis by (simp add: round_half_even_def Let_def)
qed

lemma round_half_even_of_int [simp]: "round_half_even (of_int n) = n"
  by (rule round_half_even_eqI) simp

lemma round_dbl_eqI:
  assumes "pow2 e \<le> m" and "m < pow2 (e + 1)" and "- 1022 \<le> e"
    and "\<bar>m / pow2 (e - 52) - of_int n\<bar> < 1 / 2"
    and "of_int n * pow2 (e - 52) < pow2 1024"
  shows "round_dbl s m = Fin s (of_int n * pow2 (e - 52))"
proof -
  have "0 < m" using assms(1) pow2_pos [of e] by linarith
  moreover have "ilog2 m = e" using assms(1,2) by (rule ilog2_eqI)
  moreover have "max (e - 52) (- 1074) = e - 52" using assms(3) by simp
  moreover have "round_half_even (m / pow2 (e - 52)) = n" using assms(4) by (rule round_half_even_eqI)
  ultimately show ?thesis using assms(5) by (simp add: round_dbl_def Let_def)
qed

lemma round_dbl_int:
  assumes "0 < n" and "n < 2 ^ 53"
  shows "round_dbl s (of_int n) = Fin s (of_int n)"
proof -
  define m :: rat where "m = of_int n"
  have m0: "0 < m" using assms(1) by (simp add: m_def)
  define e where "e = ilog2 m"
  from ilog2_bounds [OF m0] have lo: "pow2 e \<le> m" and hi: "m < pow2 (e + 1)"
    by (auto simp: e_def)
  have e0: "0 \<le> e"
  proof (rule ccontr)
    assume "\<not> 0 \<le> e"
    then have "pow2 (e + 1) \<le> pow2 0" by (intro pow2_mono) simp
    with hi have "m < 1" by (simp add: pow2_def)
    then show False using assms(1) by (simp add: m_def)
  qed
  have e52: "e \<le> 52"
  proof (rule ccontr)
    assume "\<not> e \<le> 52"
    then have "pow2 53 \<le> pow2 e" by (intro pow2_mono) simp
    with lo have "2 ^ 53 \<le> m" by (simp add: pow2_def)
    moreover have "m < 2 ^ 53" using assms(2) unfolding m_def
      by (metis of_int_less_iff of_int_numeral of_int_power)
    ultimately show False by simp
  qed
  define j where "j = nat (52 - e)"
  have q: "pow2 (e - 52) = 1 / 2 ^ j"
    using e52 pow2_neg [of "52 - e"] by (simp add: j_def pow2_nat)
  have sc: "m / pow2 (e - 52) = of_int (n * 2 ^ j)" by (simp add: q m_def)
  have r: "round_half_even (m / pow2 (e - 52)) = n * 2 ^ j"
    unfolding sc by (rule round_half_even_of_int)
  have v: "of_int (n * 2 ^ j) * pow2 (e - 52) = m" by (simp add: q m_def)
  have "m < pow2 1024"
  proof -
    have "m < pow2 (e + 1)" by (rule hi)
    also have "\<dots> \<le> pow2 1024" using e52 by (intro pow2_mono) simp
    finally show ?thesis .
  qed
  moreover have "max (e - 52) (- 1074) = e - 52" using e0 by simp
  ultimately have "round_dbl s m = Fin s m"
    using m0 r v by (simp add: round_dbl_def Let_def e_def [symmetric])
  then show ?thesis by (simp add: m_def)
qed

lemma round_dbl_numeral:
  "numeral k < (9007199254740992 :: int) \<Longrightarrow> round_dbl s (numeral k) = Fin s (numeral k)"
  using round_dbl_int [of "numeral k" s] by simp

lemma round_dbl_one [simp]: "round_dbl s 1 = Fin s 1"
  using round_dbl_int [of 1 s] by simp

lemma round_dbl_zero [simp]: "round_dbl s 0 = Fin s 0"
  by (simp add: round_dbl_def)

lemma round_dbl_eqI2:
  assumes "pow2 e \<le> m" and "m < pow2 (e + 1)" and "- 1022 \<le> e"
    and "round_half_even (m / pow2 (e - 52)) = n"
    and "of_int n * pow2 (e - 52) < pow2 1024"
  shows "round_dbl s m = Fin s (of_int n * pow2 (e - 52))"
proof -
  have "0 < m" using assms(1) pow2_pos [of e] by linarith
  moreover have "ilog2 m = e" using assms(1,2) by (rule ilog2_eqI)
  moreover have "max (e - 52) (- 1074) = e - 52" using assms(3) by simp
  ultimately show ?thesis using assms(4,5) by (simp add: round_dbl_def Let_def)
qed

lemma round_half_even_tie:
  assumes "x = of_int f + 1 / 2"
  shows "round_half_even x = (if even f then f else f + 1)"
proof -
  have "\<lfloor>x\<rfloor> = f" unfolding assms by (rule floor_unique) simp_all
  then show ?thesis by (simp add: round_half_even_def Let_def assms)
qed

lemma round_half_even_zero [simp]: "round_half_even 0 = 0"
  using round_half_even_of_int [of 0] by simp

lemma round_half_even_numeral [simp]: "round_half_even (numeral k) = numeral k"
  using round_half_even_of_int [of "numeral k"] by simp

lemma half_dbl: "round_dbl s (1 / 2) = Fin s (1 / 2)"
  using round_dbl_eqI [of "- 1" "1 / 2" 4503599627370496 s] by (simp add: pow2_def)

section \<open>Properties of the dashboard\<close>

subsection \<open>Selecting rows\<close>

lemma keep_simps [simp]:
  "keep [] xs = []" "keep bs [] = []"
  "keep (b # bs) (x # xs) = (if b then x # keep bs xs else keep bs xs)"
  by (simp_all add: keep_def)

lemma keep_map_filter: "keep (map P xs) xs = filter P xs"
  by (induction xs) auto

lemma map_of_map_snd: "map_of (map (\<lambda>c. (fst c, f (snd c))) cs) k = map_option f (map_of cs k)"
  by (induction cs) auto

lemma rows_of_keep:
  "length bs = length is \<Longrightarrow> \<forall>c\<in>set cs. length (snd c) = length is \<Longrightarrow>
   rows_of (keep bs is) (map (\<lambda>c. (fst c, keep bs (snd c))) cs) = keep bs (rows_of is cs)"
proof (induction "is" arbitrary: bs cs)
  case Nil
  then show ?case by simp
next
  case (Cons i "is")
  from Cons.prems(1) obtain b bs' where bs: "bs = b # bs'" and len: "length bs' = length is"
    by (cases bs) auto
  have split: "\<forall>c\<in>set cs. \<exists>v vs. snd c = v # vs \<and> length vs = length is"
    using Cons.prems(2) by (auto simp: length_Suc_conv)
  let ?tl = "map (\<lambda>c. (fst c, tl (snd c))) cs"
  have tl: "\<forall>c\<in>set ?tl. length (snd c) = length is"
    using split by auto
  have k1: "map (\<lambda>c. (fst c, tl (snd c))) (map (\<lambda>c. (fst c, keep (True # bs') (snd c))) cs)
          = map (\<lambda>c. (fst c, keep bs' (snd c))) ?tl"
    using split by auto
  have k2: "map (\<lambda>c. (fst c, hd (snd c))) (map (\<lambda>c. (fst c, keep (True # bs') (snd c))) cs)
          = map (\<lambda>c. (fst c, hd (snd c))) cs"
    using split by auto
  have k3: "map (\<lambda>c. (fst c, keep (False # bs') (snd c))) cs = map (\<lambda>c. (fst c, keep bs' (snd c))) ?tl"
    using split by auto
  show ?case
  proof (cases b)
    case True
    with bs have bT: "bs = True # bs'" by simp
    have "rows_of (keep bs (i # is)) (map (\<lambda>c. (fst c, keep bs (snd c))) cs)
        = (i, map (\<lambda>c. (fst c, hd (snd c))) cs) # rows_of (keep bs' is) (map (\<lambda>c. (fst c, keep bs' (snd c))) ?tl)"
      unfolding bT keep_simps if_True rows_of.simps k1 k2 ..
    also have "\<dots> = keep bs (rows_of (i # is) cs)"
      unfolding Cons.IH [OF len tl] bT rows_of.simps keep_simps if_True ..
    finally show ?thesis .
  next
    case False
    with bs have bF: "bs = False # bs'" by simp
    have "rows_of (keep bs (i # is)) (map (\<lambda>c. (fst c, keep bs (snd c))) cs)
        = rows_of (keep bs' is) (map (\<lambda>c. (fst c, keep bs' (snd c))) ?tl)"
      unfolding bF keep_simps if_False k3 ..
    also have "\<dots> = keep bs (rows_of (i # is) cs)"
      unfolding Cons.IH [OF len tl] bF rows_of.simps keep_simps if_False ..
    finally show ?thesis .
  qed
qed

lemma rows_of_year:
  "map_of cs ''year'' = Some years \<Longrightarrow> length years = length is \<Longrightarrow>
   map (row_year_is y) (rows_of is cs) = map (\<lambda>c. norm_cell c = N (of_int y)) years"
proof (induction "is" arbitrary: cs years)
  case Nil
  then show ?case by simp
next
  case (Cons i "is")
  then obtain v vs where years: "years = v # vs" and len: "length vs = length is"
    by (cases years) auto
  have "map_of (map (\<lambda>c. (fst c, tl (snd c))) cs) ''year'' = Some vs"
    using Cons.prems(1) by (simp add: map_of_map_snd years)
  from Cons.IH [OF this len] show ?case
    using Cons.prems(1) by (simp add: row_year_is_def map_of_map_snd years)
qed

lemma length_rows_of [simp]: "length (rows_of is cs) = length is"
  by (induction "is" arbitrary: cs) auto

subsection \<open>Formatting and missing values\<close>

declare digits.simps [simp del]

lemma digits_small [simp]: "n < 10 \<Longrightarrow> digits n = [''0123456789'' ! n]"
  by (subst digits.simps) simp

lemma digits_large: "\<not> n < 10 \<Longrightarrow> digits n = digits (n div 10) @ [''0123456789'' ! (n mod 10)]"
  by (subst digits.simps) simp

lemma format_zero: "format_1f (Fin False 0) = ''0.0''"
  by (simp add: digits_small)

lemma fdiv_NaN [simp]: "fdiv x NaN = NaN"
  by (cases x) simp_all

lemma fsub_NaN [simp]: "fsub NaN y = NaN"
  by (simp add: fsub_def)

lemma fmul_NaN [simp]: "fmul NaN y = NaN"
  by simp

lemma fillna0_notnull [simp]: "notnull (fillna0 x)"
  by (simp add: fillna0_def notnull_def)

subsection \<open>The example table, loaded\<close>

lemma dt_ex:
  "dt_year 1583366400000000000 = 2020" "dt_month 1583366400000000000 = 3"
  "dt_year 1625097600000000000 = 2021" "dt_month 1625097600000000000 = 7"
  by code_simp+

lemma load_frame_raw_ex: "load_frame raw_ex = Inr df_ex"
  by (simp add: load_frame_def raw_ex_def df_ex_def getcol_def setcol_def year_cell_def
      dt_ex ns_per_day_def)

lemma wf_df_ex: "wf_frame df_ex"
  by (simp add: wf_frame_def df_ex_def)

subsection \<open>The year filter\<close>

text \<open>
  Claim C5. On a well-formed table with a year column, filtering by \<^verbatim>\<open>All\<close> returns the
  table itself, and filtering by a year returns a table with the same columns whose rows
  are exactly the rows of the input whose year equals the selected year, in their order
  and with their labels.
\<close>

theorem filter_data_rows:
  assumes "wf_frame df" and "getcol df ''year'' = Inr years"
  shows "filter_data df All = Inr df \<and>
         (\<exists>df'. filter_data df (Year y) = Inr df' \<and>
                map fst (cols df') = map fst (cols df) \<and>
                rows df' = filter (row_year_is y) (rows df))"
proof -
  let ?bs = "map (\<lambda>c. norm_cell c = N (of_int y)) years"
  from assms(2) have m: "map_of (cols df) ''year'' = Some years"
    by (simp add: getcol_def split: option.splits)
  from assms(1) have all: "\<forall>c\<in>set (cols df). length (snd c) = length (idx df)"
    by (simp add: wf_frame_def list_all_iff)
  from m have "(''year'', years) \<in> set (cols df)" by (rule map_of_SomeD)
  with all have len: "length years = length (idx df)" by fastforce
  have bs: "?bs = map (row_year_is y) (rows df)"
    using rows_of_year [OF m len] by (simp add: rows_def)
  have "rows (select_rows ?bs df) = keep ?bs (rows df)"
    using rows_of_keep [of ?bs "idx df" "cols df"] all len by (simp add: rows_def select_rows_def)
  also have "\<dots> = filter (row_year_is y) (rows df)"
    unfolding bs by (rule keep_map_filter)
  finally have r: "rows (select_rows ?bs df) = filter (row_year_is y) (rows df)" .
  have n: "map fst (cols (select_rows ?bs df)) = map fst (cols df)"
    by (simp add: select_rows_def comp_def)
  have "filter_data df (Year y) = Inr (select_rows ?bs df)"
    by (simp add: filter_data_def assms(2))
  with r n show ?thesis by (simp add: filter_data_def)
qed

theorem filter_data_rows_witness:
  "filter_data df_ex All = Inr df_ex \<and>
   (\<exists>df'. filter_data df_ex (Year 2021) = Inr df' \<and>
      map fst (cols df') = map fst (cols df_ex) \<and>
      rows df' = [(2, [(''Order ID'', S ''A-2''), (''Order Date'', T 1625097600000000000),
                      (''Ship Date'', T 1625270400000000000), (''Product Name'', S ''Desk''),
                      (''Sales'', N 427), (''Profit'', N 30), (''year'', N 2021),
                      (''days to ship'', N 2)])])"
proof -
  have y: "getcol df_ex ''year'' = Inr [N 2020, N 2020, N 2021]"
    by (simp add: getcol_def df_ex_def)
  have r: "filter (row_year_is 2021) (rows df_ex) =
      [(2, [(''Order ID'', S ''A-2''), (''Order Date'', T 1625097600000000000),
                      (''Ship Date'', T 1625270400000000000), (''Product Name'', S ''Desk''),
                      (''Sales'', N 427), (''Profit'', N 30), (''year'', N 2021),
                      (''days to ship'', N 2)])]"
    by (simp add: rows_def df_ex_def row_year_is_def)
  from filter_data_rows [OF wf_df_ex y, of 2021] show ?thesis
    unfolding r by simp
qed

subsection \<open>Days to ship\<close>

lemma to_datetime_Inr:
  "to_datetime cs = Inr ts \<Longrightarrow>
     length ts = length cs \<and> (\<forall>i<length cs. to_timestamp (cs ! i) = Inr (ts ! i))"
proof (induction cs arbitrary: ts)
  case Nil
  then show ?case by simp
next
  case (Cons c cs)
  from Cons.prems obtain t ts' where t: "to_timestamp c = Inr t"
    and ts': "to_datetime cs = Inr ts'" and ts: "ts = t # ts'"
    by (auto simp: and_then_Inr)
  from Cons.IH [OF ts'] t ts show ?case
    by (auto simp: nth_Cons split: nat.splits)
qed

lemma load_frame_InrD:
  assumes "load_frame raw = Inr df"
  obtains od sd order ship where
    "getcol raw ''Order Date'' = Inr od" "to_datetime od = Inr order"
    "getcol raw ''Ship Date'' = Inr sd" "to_datetime sd = Inr ship"
    "df = setcol (setcol raw ''year'' (map year_cell order)) ''days to ship''
            (map days_to_ship (zip ship order))"
proof -
  obtain od where 1: "getcol raw ''Order Date'' = Inr od"
    using assms by (cases "getcol raw ''Order Date''") (simp_all add: load_frame_def)
  obtain order where 2: "to_datetime od = Inr order"
    using assms 1 by (cases "to_datetime od") (simp_all add: load_frame_def)
  let ?df1 = "setcol raw ''year'' (map year_cell order)"
  have o: "getcol ?df1 ''Order Date'' = Inr od"
    using 1 by (simp add: getcol_setcol_other)
  have s: "getcol ?df1 ''Ship Date'' = getcol raw ''Ship Date''"
    by (simp add: getcol_setcol_other)
  obtain sd where 3: "getcol raw ''Ship Date'' = Inr sd"
    using assms 1 2 s by (cases "getcol raw ''Ship Date''") (simp_all add: load_frame_def Let_def)
  obtain ship where 4: "to_datetime sd = Inr ship"
    using assms 1 2 3 s by (cases "to_datetime sd") (simp_all add: load_frame_def Let_def)
  have "df = setcol ?df1 ''days to ship'' (map days_to_ship (zip ship order))"
    using assms 1 2 3 4 s o by (simp add: load_frame_def Let_def)
  with 1 2 3 4 show ?thesis by (rule that)
qed

text \<open>
  Claim C9. For every row of the loaded table whose Ship Date and Order Date are dates,
  the derived \<^verbatim>\<open>days to ship\<close> is the number of whole days in the absolute difference of
  the two timestamps: it is not negative, and it is the same when the two dates are
  exchanged, so a ship date before the order date goes unnoticed.
\<close>

theorem days_to_ship_abs:
  assumes "load_frame raw = Inr df"
    and "getcol raw ''Ship Date'' = Inr sd" and "getcol raw ''Order Date'' = Inr od"
    and "i < length sd" and "i < length od"
    and "sd ! i = T ship" and "od ! i = T order"
  shows "\<exists>ds. getcol df ''days to ship'' = Inr ds \<and> i < length ds \<and>
           ds ! i = N (of_int (\<bar>ship - order\<bar> div ns_per_day)) \<and>
           0 \<le> \<bar>ship - order\<bar> div ns_per_day \<and>
           \<bar>ship - order\<bar> div ns_per_day = \<bar>order - ship\<bar> div ns_per_day"
proof -
  from assms(1) obtain od' sd' orders ships where
    1: "getcol raw ''Order Date'' = Inr od'" "to_datetime od' = Inr orders"
       "getcol raw ''Ship Date'' = Inr sd'" "to_datetime sd' = Inr ships"
    and df: "df = setcol (setcol raw ''year'' (map year_cell orders)) ''days to ship''
            (map days_to_ship (zip ships orders))"
    by (rule load_frame_InrD)
  from 1 assms(2,3) have [simp]: "od' = od" "sd' = sd" by simp_all
  from to_datetime_Inr [OF 1(2)] assms(5,7) have o: "length orders = length od" "orders ! i = Some order"
    by auto
  from to_datetime_Inr [OF 1(4)] assms(4,6) have s: "length ships = length sd" "ships ! i = Some ship"
    by auto
  let ?ds = "map days_to_ship (zip ships orders)"
  have "getcol df ''days to ship'' = Inr ?ds" by (simp add: df getcol_setcol_same)
  moreover have "i < length ?ds" using o s assms(4,5) by simp
  moreover have "?ds ! i = N (of_int (\<bar>ship - order\<bar> div ns_per_day))"
    using o s assms(4,5) by simp
  moreover have "0 \<le> \<bar>ship - order\<bar> div ns_per_day"
    by (simp add: ns_per_day_def pos_imp_zdiv_nonneg_iff)
  moreover have "\<bar>ship - order\<bar> = \<bar>order - ship\<bar>" by simp
  ultimately show ?thesis by (metis (no_types))
qed

theorem days_to_ship_abs_witness:
  "\<exists>ds. getcol df_ex ''days to ship'' = Inr ds \<and> 1 < length ds \<and>
     ds ! 1 = N (of_int (\<bar>1583020800000000000 - 1583366400000000000\<bar> div ns_per_day)) \<and>
     ds ! 1 = N 4 \<and> (1583020800000000000 :: int) < 1583366400000000000"
proof -
  have a: "getcol raw_ex ''Ship Date'' = Inr [T 1583712000000000000, T 1583020800000000000, T 1625270400000000000]"
    by (simp add: getcol_def raw_ex_def)
  have b: "getcol raw_ex ''Order Date'' = Inr [T 1583366400000000000, T 1583366400000000000, T 1625097600000000000]"
    by (simp add: getcol_def raw_ex_def)
  from days_to_ship_abs [OF load_frame_raw_ex a b, of 1 1583020800000000000 1583366400000000000]
  obtain ds where "getcol df_ex ''days to ship'' = Inr ds" "1 < length ds"
    "ds ! 1 = N (of_int (\<bar>1583020800000000000 - 1583366400000000000\<bar> div ns_per_day))"
    by auto
  moreover from this(1) have "ds ! 1 = N 4" by (auto simp: getcol_def df_ex_def)
  ultimately show ?thesis by auto
qed

subsection \<open>Grouping and the change series\<close>

lemma length_shift1 [simp]: "length (shift1 xs) = length xs"
  by (simp add: shift1_def)

lemma shift1_nth: "i < length xs \<Longrightarrow> shift1 xs ! i = (if i = 0 then NaN else xs ! (i - 1))"
  by (cases i) (auto simp: shift1_def nth_butlast)

lemma length_pct_change [simp]: "length (pct_change xs) = length xs"
  by (simp add: pct_change_def)

lemma pct_change_nth:
  "i < length xs \<Longrightarrow>
   pct_change xs ! i = fsub (fdiv (xs ! i) (if i = 0 then NaN else xs ! (i - 1))) (Fin False 1)"
  by (simp add: pct_change_def shift1_nth)

lemma agg_groups_Inr:
  "agg_groups metric gs = Inr vs \<Longrightarrow>
     map fst vs = map fst gs \<and> (\<forall>i<length gs. agg metric (snd (gs ! i)) = Inr (snd (vs ! i)))"
proof (induction gs arbitrary: vs)
  case Nil
  then show ?case by simp
next
  case (Cons g gs)
  obtain k cs where g: "g = (k, cs)" by (cases g)
  from Cons.prems obtain v ws where v: "agg metric cs = Inr v"
    and ws: "agg_groups metric gs = Inr ws" and vs: "vs = (k, v) # ws"
    by (auto simp: g and_then_Inr)
  from Cons.IH [OF ws] v vs g show ?case
    by (auto simp: nth_Cons split: nat.splits)
qed

lemma get_per_year_change_eq:
  "get_per_year_change col df metric =
     and_then (grouped col df metric) (\<lambda>g.
       Inr (zip (map fst g)
              (map (\<lambda>x. format_1f (fillna0 (fmul x (Fin False 100))) @ ''%'')
                 (pct_change (map snd g)))))"
  by (simp add: get_per_year_change_def Let_def comp_def)

lemma get_per_year_change_InrD:
  assumes "get_per_year_change col df metric = Inr s"
  obtains g where "grouped col df metric = Inr g" and "length s = length g"
    and "map fst s = map fst g"
    and "\<forall>i<length g.
           snd (s ! i) = delta_of (snd (g ! i)) (if i = 0 then NaN else snd (g ! (i - 1)))"
proof -
  from assms obtain g where g: "grouped col df metric = Inr g"
    and s: "s = zip (map fst g)
              (map (\<lambda>x. format_1f (fillna0 (fmul x (Fin False 100))) @ ''%'')
                 (pct_change (map snd g)))"
    by (auto simp: get_per_year_change_eq and_then_Inr)
  have 1: "length s = length g" by (simp add: s)
  have 2: "map fst s = map fst g" by (simp add: s)
  have 3: "\<forall>i<length g.
           snd (s ! i) = delta_of (snd (g ! i)) (if i = 0 then NaN else snd (g ! (i - 1)))"
    by (simp add: s pct_change_nth delta_of_def)
  from g 1 2 3 show ?thesis by (rule that)
qed

lemma delta_of_NaN: "delta_of x NaN = ''0.0%''"
  by (simp add: delta_of_def fillna0_def format_zero)

lemma grouped_InrD:
  assumes "grouped col df metric = Inr g"
  obtains years vals where "getcol df ''year'' = Inr years" and "getcol df col = Inr vals"
    and "map fst g = group_keys years"
    and "\<forall>i<length (group_keys years).
           agg metric (group_of (map norm_cell years) vals (group_keys years ! i)) = Inr (snd (g ! i))"
proof -
  obtain years where 1: "getcol df ''year'' = Inr years"
    using assms by (cases "getcol df ''year''") (simp_all add: grouped_def)
  obtain vals where 2: "getcol df col = Inr vals"
    using assms 1 by (cases "getcol df col") (simp_all add: grouped_def)
  let ?gs = "map (\<lambda>k. (k, group_of (map norm_cell years) vals k)) (group_keys years)"
  have "agg_groups metric ?gs = Inr g" using assms 1 2 by (simp add: grouped_def)
  from agg_groups_Inr [OF this]
  have 3: "map fst g = group_keys years"
    and 4: "\<forall>i<length (group_keys years).
           agg metric (group_of (map norm_cell years) vals (group_keys years ! i)) = Inr (snd (g ! i))"
    by (auto simp: comp_def)
  from 1 2 3 4 show ?thesis by (rule that)
qed

lemma sorted_group_keys: "sorted (map cell_key (group_keys ks))"
  by (simp add: group_keys_def)

lemma cell_key_inj: "cell_key (norm_cell a) = cell_key (norm_cell b) \<Longrightarrow> norm_cell a = norm_cell b"
  by (cases a; cases b) (auto split: if_splits)

lemma distinct_group_keys: "distinct (map cell_key (group_keys ks))"
proof -
  have "inj_on cell_key (set (group_keys ks))"
    by (rule inj_onI) (auto simp: group_keys_def dest: cell_key_inj)
  moreover have "distinct (group_keys ks)" by (simp add: group_keys_def)
  ultimately show ?thesis by (simp add: distinct_map)
qed

lemma group_keys_ascending:
  assumes "0 < i" and "i < length (group_keys ks)"
  shows "cell_key (group_keys ks ! (i - 1)) < cell_key (group_keys ks ! i)"
proof -
  let ?xs = "map cell_key (group_keys ks)"
  have "sorted ?xs" "distinct ?xs" by (rule sorted_group_keys, rule distinct_group_keys)
  then have "sorted_wrt (<) ?xs" by (simp only: strict_sorted_iff)
  then have "?xs ! (i - 1) < ?xs ! i"
    using assms by (intro sorted_wrt_nth_less) simp_all
  with assms show ?thesis by simp
qed

lemma get_per_year_change_deltas:
  "get_per_year_change col df metric =
     and_then (grouped col df metric) (\<lambda>g.
       Inr (zip (map fst g)
              (map (\<lambda>xp. delta_of (fst xp) (snd xp)) (zip (map snd g) (shift1 (map snd g))))))"
  by (simp add: get_per_year_change_eq pct_change_def delta_of_def comp_def)

subsection \<open>The metrics and changes of the example tables\<close>

lemma dbl_of_rat_numeral:
  "numeral k < (9007199254740992 :: int) \<Longrightarrow> dbl_of_rat (numeral k) = Fin False (numeral k)"
  by (simp add: dbl_of_rat_def round_dbl_numeral)

lemma dbl_of_rat_0 [simp]: "dbl_of_rat 0 = Fin False 0"
  by (simp add: dbl_of_rat_def)

lemma dbl_of_rat_1 [simp]: "dbl_of_rat 1 = Fin False 1"
  by (simp add: dbl_of_rat_def)

lemmas eval_defs = getcol_def group_keys_def group_of_def sum_cells_def kahan_step_def fsub_def
  Let_def count_cells_def dbl_of_rat_numeral round_dbl_numeral

lemma grouped_sales_ex:
  "grouped ''Sales'' df_ex AggSum = Inr [(N 2020, Fin False 400), (N 2021, Fin False 427)]"
  by (simp add: grouped_def df_ex_def eval_defs)

lemma grouped_profit_ex:
  "grouped ''Profit'' df_ex AggSum = Inr [(N 2020, Fin False 30), (N 2021, Fin False 30)]"
  by (simp add: grouped_def df_ex_def eval_defs)

lemma grouped_orders_ex:
  "grouped ''Order ID'' df_ex AggCount = Inr [(N 2020, Fin False 2), (N 2021, Fin False 1)]"
  by (simp add: grouped_def df_ex_def eval_defs)

lemma grouped_zero_ex:
  "grouped ''Sales'' zero_ex AggSum = Inr [(N 2020, Fin False 0), (N 2021, Fin False 0), (N 2022, Fin False 5)]"
  by (simp add: grouped_def zero_ex_def eval_defs)

lemma div_427_400:
  "fdiv (Fin False 427) (Fin False 400) = Fin False (1201898150554501 / 1125899906842624)"
  using round_dbl_eqI [of 0 "427 / 400" 4807592602218004 False] by (simp add: pow2_def)

lemma sub_427_400:
  "fsub (Fin False (1201898150554501 / 1125899906842624)) (Fin False 1)
     = Fin False (75998243711877 / 1125899906842624)"
  using round_dbl_eqI [of "- 4" "75998243711877 / 1125899906842624" 4863887597560128 False]
  by (simp add: pow2_def fsub_def)

lemma mul_427_400:
  "fmul (Fin False (75998243711877 / 1125899906842624)) (Fin False 100)
     = Fin False (1899956092796925 / 281474976710656)"
  using round_dbl_eqI [of 2 "1899956092796925 / 281474976710656" 7599824371187700 False]
  by (simp add: pow2_def)

lemma fmt_427_400: "format_1f (Fin False (1899956092796925 / 281474976710656)) = ''6.7''"
  using round_half_even_eqI [of "9499780463984625 / 140737488355328" 67]
  by simp

lemma delta_427_400: "delta_of (Fin False 427) (Fin False 400) = ''6.7%''"
proof -
  have "delta_of (Fin False 427) (Fin False 400)
      = format_1f (fillna0 (Fin False (1899956092796925 / 281474976710656))) @ ''%''"
    unfolding delta_of_def div_427_400 sub_427_400 mul_427_400 ..
  also have "fillna0 (Fin False (1899956092796925 / 281474976710656))
      = Fin False (1899956092796925 / 281474976710656)"
    by (simp add: fillna0_def)
  finally show ?thesis unfolding fmt_427_400 by simp
qed

lemma spec_sub_427_400: "fsub (Fin False 427) (Fin False 400) = Fin False 27"
  by (simp add: fsub_def round_dbl_numeral)

lemma spec_div_27_400:
  "fdiv (Fin False 27) (Fin False 400) = Fin False (607985949695017 / 9007199254740992)"
  using round_dbl_eqI [of "- 4" "27 / 400" 4863887597560136 False] by (simp add: pow2_def)

lemma spec_mul_27_400:
  "fmul (Fin False (607985949695017 / 9007199254740992)) (Fin False 100) = Fin False (27 / 4)"
proof -
  have "round_half_even (15199648742375425 / 2) = 7599824371187712"
    using round_half_even_tie [of "15199648742375425 / 2" 7599824371187712] by simp
  then show ?thesis
    using round_dbl_eqI2 [of 2 "15199648742375425 / 2251799813685248" 7599824371187712 False]
    by (simp add: pow2_def)
qed

lemma spec_fmt_27_4: "format_1f (Fin False (27 / 4)) = ''6.8''"
  using round_half_even_tie [of "135 / 2" 67] by simp

lemma spec_delta_427_400: "spec_delta (Fin False 427) (Fin False 400) = ''6.8%''"
proof -
  have "spec_delta (Fin False 427) (Fin False 400) = format_1f (Fin False (27 / 4)) @ ''%''"
    unfolding spec_delta_def spec_sub_427_400 spec_div_27_400 spec_mul_27_400 ..
  then show ?thesis unfolding spec_fmt_27_4 by simp
qed

lemma delta_30_30: "delta_of (Fin False 30) (Fin False 30) = ''0.0%''"
  by (simp add: delta_of_def fsub_def fillna0_def)

lemma delta_1_2: "delta_of (Fin False 1) (Fin False 2) = ''-50.0%''"
  by (simp add: delta_of_def fsub_def fillna0_def half_dbl round_dbl_numeral digits_large)

lemma delta_0_0: "delta_of (Fin False 0) (Fin False 0) = ''0.0%''"
  by (simp add: delta_of_def fillna0_def)

lemma delta_5_0: "delta_of (Fin False 5) (Fin False 0) = ''inf%''"
  by (simp add: delta_of_def fsub_def fillna0_def)

lemma sales_change_ex:
  "get_per_year_change ''Sales'' df_ex AggSum = Inr [(N 2020, ''0.0%''), (N 2021, ''6.7%'')]"
  by (simp add: get_per_year_change_deltas grouped_sales_ex shift1_def delta_of_NaN delta_427_400)

lemma profit_change_ex:
  "get_per_year_change ''Profit'' df_ex AggSum = Inr [(N 2020, ''0.0%''), (N 2021, ''0.0%'')]"
  by (simp add: get_per_year_change_deltas grouped_profit_ex shift1_def delta_of_NaN delta_30_30)

lemma orders_change_ex:
  "get_per_year_change ''Order ID'' df_ex AggCount = Inr [(N 2020, ''0.0%''), (N 2021, ''-50.0%'')]"
  by (simp add: get_per_year_change_deltas grouped_orders_ex shift1_def delta_of_NaN delta_1_2)

lemma load_data_raw_ex:
  "load_data raw_ex = Inr (df_ex, [(N 2020, ''0.0%''), (N 2021, ''6.7%'')],
     [(N 2020, ''0.0%''), (N 2021, ''0.0%'')], [(N 2020, ''0.0%''), (N 2021, ''-50.0%'')])"
  by (simp add: load_data_def load_frame_raw_ex sales_change_ex profit_change_ex orders_change_ex)

text \<open>
  Sales in cents. The sum of a group is compensated as pandas does it, so the three sales
  of each year below add up to 400 and to 427 exactly, where a plain running sum of the
  first three gives a double just below 400.
\<close>

lemma cents_1: "round_dbl s (23153 / 100) = Fin s (8146237669727273 / 35184372088832)"
  using round_dbl_eqI [of 7 "23153 / 100" 8146237669727273 s] by (simp add: pow2_def)

lemma cents_2: "round_dbl s (8146237669727273 / 35184372088832) = Fin s (8146237669727273 / 35184372088832)"
  using round_dbl_eqI [of 7 "8146237669727273 / 35184372088832" 8146237669727273 s] by (simp add: pow2_def)

lemma cents_3: "round_dbl s (7357 / 50) = Fin s (1294257127287685 / 8796093022208)"
  using round_dbl_eqI [of 7 "7357 / 50" 5177028509150740 s] by (simp add: pow2_def)

lemma cents_4: "round_dbl s (1294257127287685 / 8796093022208) = Fin s (1294257127287685 / 8796093022208)"
  using round_dbl_eqI [of 7 "1294257127287685 / 8796093022208" 5177028509150740 s] by (simp add: pow2_def)

lemma cents_5: "round_dbl s (13323266178878013 / 35184372088832) = Fin s (3330816544719503 / 8796093022208)"
proof -
  have "round_half_even (13323266178878013 / 2) = 6661633089439006"
    using round_half_even_tie [of "13323266178878013 / 2" 6661633089439006] by simp
  then show ?thesis
    using round_dbl_eqI2 [of 8 "13323266178878013 / 35184372088832" 6661633089439006 s] by (simp add: pow2_def)
qed

lemma cents_6: "round_dbl s (5177028509150739 / 35184372088832) = Fin s (5177028509150739 / 35184372088832)"
  using round_dbl_eqI [of 7 "5177028509150739 / 35184372088832" 5177028509150739 s] by (simp add: pow2_def)

lemma cents_7: "round_dbl s (1 / 35184372088832) = Fin s (1 / 35184372088832)"
  using round_dbl_eqI [of "- 45" "1 / 35184372088832" 4503599627370496 s] by (simp add: pow2_def)

lemma cents_8: "round_dbl s (2133 / 100) = Fin s (1500965313309573 / 70368744177664)"
  using round_dbl_eqI [of 4 "2133 / 100" 6003861253238292 s] by (simp add: pow2_def)

lemma cents_9: "round_dbl s (1500965313309575 / 70368744177664) = Fin s (1500965313309575 / 70368744177664)"
  using round_dbl_eqI [of 4 "1500965313309575 / 70368744177664" 6003861253238300 s] by (simp add: pow2_def)

lemma cents_10: "round_dbl s (28147497671065599 / 70368744177664) = Fin s (400)"
  using round_dbl_eqI [of 8 "28147497671065599 / 70368744177664" 7036874417766400 s] by (simp add: pow2_def)

lemma cents_11: "round_dbl s (187620664163697 / 8796093022208) = Fin s (187620664163697 / 8796093022208)"
  using round_dbl_eqI [of 4 "187620664163697 / 8796093022208" 6003861253238304 s] by (simp add: pow2_def)

lemma cents_12: "round_dbl s (1 / 70368744177664) = Fin s (1 / 70368744177664)"
  using round_dbl_eqI [of "- 46" "1 / 70368744177664" 4503599627370496 s] by (simp add: pow2_def)

lemma cents_13: "round_dbl s (4412 / 25) = Fin s (6209337986237071 / 35184372088832)"
  using round_dbl_eqI [of 7 "4412 / 25" 6209337986237071 s] by (simp add: pow2_def)

lemma cents_14: "round_dbl s (6209337986237071 / 35184372088832) = Fin s (6209337986237071 / 35184372088832)"
  using round_dbl_eqI [of 7 "6209337986237071 / 35184372088832" 6209337986237071 s] by (simp add: pow2_def)

lemma cents_15: "round_dbl s (9133 / 50) = Fin s (6426777405746053 / 35184372088832)"
  using round_dbl_eqI [of 7 "9133 / 50" 6426777405746053 s] by (simp add: pow2_def)

lemma cents_16: "round_dbl s (6426777405746053 / 35184372088832) = Fin s (6426777405746053 / 35184372088832)"
  using round_dbl_eqI [of 7 "6426777405746053 / 35184372088832" 6426777405746053 s] by (simp add: pow2_def)

lemma cents_17: "round_dbl s (3159028847995781 / 8796093022208) = Fin s (3159028847995781 / 8796093022208)"
  using round_dbl_eqI [of 8 "3159028847995781 / 8796093022208" 6318057695991562 s] by (simp add: pow2_def)

lemma cents_18: "round_dbl s (3393 / 50) = Fin s (4775222979896279 / 70368744177664)"
  using round_dbl_eqI [of 6 "3393 / 50" 4775222979896279 s] by (simp add: pow2_def)

lemma cents_19: "round_dbl s (4775222979896279 / 70368744177664) = Fin s (4775222979896279 / 70368744177664)"
  using round_dbl_eqI [of 6 "4775222979896279 / 70368744177664" 4775222979896279 s] by (simp add: pow2_def)

lemma cents_20: "round_dbl s (30047453763862527 / 70368744177664) = Fin s (427)"
  using round_dbl_eqI [of 8 "30047453763862527 / 70368744177664" 7511863440965632 s] by (simp add: pow2_def)

lemma cents_21: "round_dbl s (596902872487035 / 8796093022208) = Fin s (596902872487035 / 8796093022208)"
  using round_dbl_eqI [of 6 "596902872487035 / 8796093022208" 4775222979896280 s] by (simp add: pow2_def)

lemmas cents_rounding = cents_1 cents_2 cents_3 cents_4 cents_5 cents_6 cents_7 cents_8 cents_9 cents_10 cents_11 cents_12 cents_13 cents_14 cents_15 cents_16 cents_17 cents_18 cents_19 cents_20 cents_21

lemma kahan_cents_2020:
  "sum_cells [N 231.53, N 147.14, N 21.33] = Inr (Fin False 400)"
  by (simp add: sum_cells_def kahan_step_def fsub_def Let_def dbl_of_rat_def cents_rounding
      round_dbl_numeral)

lemma kahan_cents_2021:
  "sum_cells [N 176.48, N 182.66, N 67.86] = Inr (Fin False 427)"
  by (simp add: sum_cells_def kahan_step_def fsub_def Let_def dbl_of_rat_def cents_rounding
      round_dbl_numeral)

lemma cents_columns:
  "getcol cents_ex ''year'' = Inr [N 2020, N 2020, N 2020, N 2021, N 2021, N 2021]"
  "getcol cents_ex ''Sales'' = Inr [N 231.53, N 147.14, N 21.33, N 176.48, N 182.66, N 67.86]"
  by (simp_all add: getcol_def cents_ex_def)

lemma cents_groups:
  "group_of (map norm_cell [N 2020, N 2020, N 2020, N 2021, N 2021, N 2021])
       [N 231.53, N 147.14, N 21.33, N 176.48, N 182.66, N 67.86] (N 2020)
     = [N 231.53, N 147.14, N 21.33]"
  "group_of (map norm_cell [N 2020, N 2020, N 2020, N 2021, N 2021, N 2021])
       [N 231.53, N 147.14, N 21.33, N 176.48, N 182.66, N 67.86] (N 2021)
     = [N 176.48, N 182.66, N 67.86]"
  by (simp_all add: group_of_def)

lemma grouped_cents_ex:
  "grouped ''Sales'' cents_ex AggSum = Inr [(N 2020, Fin False 400), (N 2021, Fin False 427)]"
proof -
  define ys where "ys = [N 2020, N 2020, N 2020, N 2021, N 2021, N 2021]"
  define vs where "vs = [N 231.53, N 147.14, N 21.33, N 176.48, N 182.66, N 67.86]"
  have y: "getcol cents_ex ''year'' = Inr ys" and p: "getcol cents_ex ''Sales'' = Inr vs"
    unfolding ys_def vs_def by (rule cents_columns)+
  have g0: "group_of (map norm_cell ys) vs (N 2020) = [N 231.53, N 147.14, N 21.33]"
    and g1: "group_of (map norm_cell ys) vs (N 2021) = [N 176.48, N 182.66, N 67.86]"
    unfolding ys_def vs_def by (rule cents_groups)+
  have k: "group_keys ys = [N 2020, N 2021]"
    by (simp add: group_keys_def ys_def)
  have "grouped ''Sales'' cents_ex AggSum =
      agg_groups AggSum [(N 2020, group_of (map norm_cell ys) vs (N 2020)),
                         (N 2021, group_of (map norm_cell ys) vs (N 2021))]"
    unfolding grouped_def y p and_then_simps k list.map ..
  also have "\<dots> = Inr [(N 2020, Fin False 400), (N 2021, Fin False 427)]"
    unfolding g0 g1 agg_groups.simps agg.simps kahan_cents_2020 kahan_cents_2021 and_then_simps ..
  finally show ?thesis .
qed

lemma cents_change_ex:
  "get_per_year_change ''Sales'' cents_ex AggSum = Inr [(N 2020, ''0.0%''), (N 2021, ''6.7%'')]"
  by (simp add: get_per_year_change_deltas grouped_cents_ex shift1_def delta_of_NaN delta_427_400)

subsection \<open>The first year\<close>

text \<open>
  Claim C3. Whenever \<^verbatim>\<open>get_per_year_change\<close> returns a series that is not empty, its first
  entry, which belongs to the earliest year of the table, is \<^verbatim>\<open>0.0%\<close>, whatever the table,
  the column and the aggregation are.
\<close>

theorem first_year_zero:
  assumes "get_per_year_change col df metric = Inr s" and "s \<noteq> []"
  shows "snd (hd s) = ''0.0%'' \<and> (\<forall>k\<in>set (map fst s). cell_key (fst (hd s)) \<le> cell_key k)"
proof -
  from assms(1) obtain g where g: "grouped col df metric = Inr g" and len: "length s = length g"
    and keys: "map fst s = map fst g"
    and vals: "\<forall>i<length g.
           snd (s ! i) = delta_of (snd (g ! i)) (if i = 0 then NaN else snd (g ! (i - 1)))"
    by (rule get_per_year_change_InrD)
  from assms(2) len have "0 < length g" by (cases s) auto
  with vals have "snd (s ! 0) = ''0.0%''" by (auto simp: delta_of_NaN)
  with assms(2) have 1: "snd (hd s) = ''0.0%''" by (simp add: hd_conv_nth)
  from g obtain years where "map fst g = group_keys years" by (rule grouped_InrD)
  with keys have "sorted (map cell_key (map fst s))" by (simp add: sorted_group_keys)
  moreover from assms(2) have "map fst s = fst (hd s) # map fst (tl s)" by (cases s) simp_all
  ultimately have "sorted (cell_key (fst (hd s)) # map cell_key (map fst (tl s)))" by simp
  then have 2: "\<forall>k\<in>set (map fst (tl s)). cell_key (fst (hd s)) \<le> cell_key k" by simp
  have "set (map fst s) = insert (fst (hd s)) (set (map fst (tl s)))"
    using assms(2) by (cases s) simp_all
  with 1 2 show ?thesis by auto
qed

theorem first_year_zero_witness:
  "get_per_year_change ''Order ID'' df_ex AggCount = Inr [(N 2020, ''0.0%''), (N 2021, ''-50.0%'')] \<and>
   snd (hd [(N 2020, ''0.0%''), (N 2021, ''-50.0%'')]) = ''0.0%'' \<and>
   cell_key (N 2020) \<le> cell_key (N 2021)"
  using first_year_zero [OF orders_change_ex] orders_change_ex by simp

subsection \<open>The change from one year to the next\<close>




subsection \<open>Results that are not numbers\<close>

text \<open>
  No entry of a change series is ever the token \<^verbatim>\<open>NaN\<close>: \<^verbatim>\<open>fillna(0)\<close> runs before
  the formatting, so the branch of the formatting function that writes the token is dead.
\<close>

lemma never_NaN_token:
  assumes "get_per_year_change col df metric = Inr s"
  shows "''NaN'' \<notin> snd ` set s"
proof -
  from assms obtain g where
    s: "s = zip (map fst g)
              (map (\<lambda>x. format_1f (fillna0 (fmul x (Fin False 100))) @ ''%'')
                 (pct_change (map snd g)))"
    by (auto simp: get_per_year_change_eq and_then_Inr)
  have "v \<noteq> ''NaN''" if "(k, v) \<in> set s" for k v
  proof -
    from that obtain x where "v = format_1f x @ ''%''"
      unfolding s by (auto dest!: set_zip_rightD)
    then have "last v = CHR ''%''" by simp
    then show ?thesis by auto
  qed
  then show ?thesis by force
qed

text \<open>
  Claim C4 asks for the token \<^verbatim>\<open>NaN\<close> where the change is not a number. With sales of 0,
  0 and 5 in three years, the change of the second year is 0 / 0 and that of the third is
  5 / 0; the series holds \<^verbatim>\<open>0.0%\<close> and \<^verbatim>\<open>inf%\<close> there.
\<close>

theorem nan_token_unreachable:
  "get_per_year_change ''Sales'' zero_ex AggSum
     = Inr [(N 2020, ''0.0%''), (N 2021, ''0.0%''), (N 2022, ''inf%'')]"
  by (simp add: get_per_year_change_deltas grouped_zero_ex shift1_def delta_of_NaN delta_0_0 delta_5_0)

subsection \<open>The Orders card\<close>

lemma agg_groups_count:
  "agg_groups AggCount gs = Inr (map (\<lambda>g. (fst g, dbl_of_rat (of_nat (count_cells (snd g))))) gs)"
  by (induction gs) auto

lemma grouped_count:
  assumes "getcol df ''year'' = Inr years" and "getcol df col = Inr vals"
  shows "grouped col df AggCount =
           Inr (map (\<lambda>y. (y, dbl_of_rat (of_nat (length (filter (\<lambda>c. c \<noteq> Missing)
                                (group_of (map norm_cell years) vals y))))))
                  (group_keys years))"
  using assms by (simp add: grouped_def agg_groups_count comp_def count_cells_def)

lemma nunique_card: "nunique cs = card (norm_cell ` (set cs - {Missing}))"
proof -
  have "set (filter (\<lambda>c. c \<noteq> Missing) cs) = set cs - {Missing}" by auto
  then show ?thesis by (simp add: nunique_def length_remdups_card_conv)
qed

lemma create_kpi_metrics_InrD:
  assumes "create_kpi_metrics series_sum df s p orders sel = Inr k"
  obtains ids where "getcol df ''Order ID'' = Inr ids" and "orders_total k = nunique ids"
    and "change_of orders sel = Inr (orders_change k)"
proof -
  obtain sales where 1: "getcol df ''Sales'' = Inr sales"
    using assms by (cases "getcol df ''Sales''") (simp_all add: create_kpi_metrics_def)
  obtain ts where 2: "series_sum sales = Inr ts"
    using assms 1 by (cases "series_sum sales") (simp_all add: create_kpi_metrics_def)
  obtain profit where 3: "getcol df ''Profit'' = Inr profit"
    using assms 1 2 by (cases "getcol df ''Profit''") (simp_all add: create_kpi_metrics_def)
  obtain tp where 4: "series_sum profit = Inr tp"
    using assms 1 2 3 by (cases "series_sum profit") (simp_all add: create_kpi_metrics_def)
  obtain ids where 5: "getcol df ''Order ID'' = Inr ids"
    using assms 1 2 3 4 by (cases "getcol df ''Order ID''") (simp_all add: create_kpi_metrics_def)
  obtain sc where 6: "change_of s sel = Inr sc"
    using assms 1 2 3 4 5 by (cases "change_of s sel") (simp_all add: create_kpi_metrics_def)
  obtain pc where 7: "change_of p sel = Inr pc"
    using assms 1 2 3 4 5 6 by (cases "change_of p sel") (simp_all add: create_kpi_metrics_def)
  obtain oc where 8: "change_of orders sel = Inr oc"
    using assms 1 2 3 4 5 6 7 by (cases "change_of orders sel") (simp_all add: create_kpi_metrics_def)
  have k: "k = \<lparr>sales_total = ts, sales_change = sc, profit_total = tp, profit_change = pc,
            orders_total = nunique ids, orders_change = oc\<rparr>"
    using assms 1 2 3 4 5 6 7 8 by (simp add: create_kpi_metrics_def)
  have "orders_total k = nunique ids" by (simp add: k)
  moreover have "change_of orders sel = Inr (orders_change k)" by (simp add: k 8)
  ultimately show ?thesis using 5 by (intro that)
qed

lemma load_data_InrD:
  assumes "load_data raw = Inr loaded"
  obtains df s p orders where "load_frame raw = Inr df" and "loaded = (df, s, p, orders)"
    and "get_per_year_change ''Sales'' df AggSum = Inr s"
    and "get_per_year_change ''Profit'' df AggSum = Inr p"
    and "get_per_year_change ''Order ID'' df AggCount = Inr orders"
proof -
  obtain df where 1: "load_frame raw = Inr df"
    using assms by (cases "load_frame raw") (simp_all add: load_data_def)
  obtain s where 2: "get_per_year_change ''Sales'' df AggSum = Inr s"
    using assms 1 by (cases "get_per_year_change ''Sales'' df AggSum") (simp_all add: load_data_def)
  obtain p where 3: "get_per_year_change ''Profit'' df AggSum = Inr p"
    using assms 1 2 by (cases "get_per_year_change ''Profit'' df AggSum") (simp_all add: load_data_def)
  obtain orders where 4: "get_per_year_change ''Order ID'' df AggCount = Inr orders"
    using assms 1 2 3 by (cases "get_per_year_change ''Order ID'' df AggCount") (simp_all add: load_data_def)
  have "loaded = (df, s, p, orders)" using assms 1 2 3 4 by (simp add: load_data_def)
  with 1 2 3 4 show ?thesis by (intro that)
qed

lemma filter_data_NoYear: "filter_data df NoYear \<noteq> Inr df'"
  by (cases "getcol df ''year''") (simp_all add: filter_data_def)

lemma distinct_keys: "distinct (group_keys ks)"
  using distinct_group_keys [of ks] by (simp add: distinct_map)

lemma count_series:
  assumes "get_per_year_change col df AggCount = Inr s"
  obtains years vals where "getcol df ''year'' = Inr years" and "getcol df col = Inr vals"
    and "map fst s = group_keys years"
    and "\<forall>i<length s. snd (s ! i) =
           delta_of (dbl_of_rat (of_nat (length (filter (\<lambda>c. c \<noteq> Missing)
                        (group_of (map norm_cell years) vals (fst (s ! i)))))))
             (if i = 0 then NaN
              else dbl_of_rat (of_nat (length (filter (\<lambda>c. c \<noteq> Missing)
                        (group_of (map norm_cell years) vals (fst (s ! (i - 1))))))))"
proof -
  from assms obtain g where g: "grouped col df AggCount = Inr g" and len: "length s = length g"
    and keys: "map fst s = map fst g"
    and deltas: "\<forall>i<length g.
           snd (s ! i) = delta_of (snd (g ! i)) (if i = 0 then NaN else snd (g ! (i - 1)))"
    by (rule get_per_year_change_InrD)
  from g obtain years vals where y: "getcol df ''year'' = Inr years" and v: "getcol df col = Inr vals"
    and gk: "map fst g = group_keys years"
    by (rule grouped_InrD)
  let ?n = "\<lambda>y. dbl_of_rat (of_nat (length (filter (\<lambda>c. c \<noteq> Missing)
                        (group_of (map norm_cell years) vals y))))"
  from g grouped_count [OF y v] have ge: "g = map (\<lambda>y. (y, ?n y)) (group_keys years)" by simp
  have n: "length (group_keys years) = length s" using len ge by simp
  have k: "fst (s ! j) = group_keys years ! j" if "j < length s" for j
    using that keys gk by (metis nth_map)
  have gj: "snd (g ! j) = ?n (fst (s ! j))" if "j < length s" for j
    using that n k [OF that] by (simp add: ge)
  have "snd (s ! i) = delta_of (?n (fst (s ! i))) (if i = 0 then NaN else ?n (fst (s ! (i - 1))))"
    if "i < length s" for i
  proof -
    have "i - 1 < length s" using that by simp
    with deltas that len gj [OF that] gj [of "i - 1"] show ?thesis by simp
  qed
  then have all: "\<forall>i<length s. snd (s ! i) =
      delta_of (?n (fst (s ! i))) (if i = 0 then NaN else ?n (fst (s ! (i - 1))))"
    by blast
  have ks: "map fst s = group_keys years" using keys gk by simp
  from y v ks all show ?thesis by (rule that)
qed

lemma change_of_All:
  assumes "change_of s All = Inr c"
  shows "s \<noteq> [] \<and> c = snd (last s)"
  using assms by (auto simp: change_of_def iloc_last_def split: if_splits)

lemma change_of_Year:
  assumes "change_of s (Year y) = Inr c" and "distinct (map fst s)"
  shows "(\<forall>i<length s. fst (s ! i) = N (of_int y) \<longrightarrow> c = snd (s ! i)) \<and>
         (N (of_int y) \<notin> set (map fst s) \<longrightarrow> c = ''0%'')"
proof (intro conjI allI impI)
  fix i assume i: "i < length s" and f: "fst (s ! i) = N (of_int y)"
  then have "(N (of_int y), snd (s ! i)) \<in> set s"
    by (metis nth_mem prod.collapse)
  with assms(2) have "map_of s (N (of_int y)) = Some (snd (s ! i))" by (rule map_of_is_SomeI)
  with assms(1) show "c = snd (s ! i)" by (simp add: change_of_def series_get_def)
next
  assume "N (of_int y) \<notin> set (map fst s)"
  then have "map_of s (N (of_int y)) = None" by (simp add: map_of_eq_None_iff)
  with assms(1) show "c = ''0%''" by (simp add: change_of_def series_get_def)
qed

lemma length_group_of:
  assumes "length ks = length vs"
  shows "length (group_of ks vs k) = length (filter (\<lambda>x. x = k) ks)"
  using assms unfolding group_of_def by (induction ks vs rule: list_induct2) auto

lemma set_group_of: "set (group_of ks vs k) \<subseteq> set vs"
  unfolding group_of_def by (auto dest: set_zip_rightD)

lemma rows_are_counts:
  assumes "Missing \<notin> set vals" and "length vals = length years"
  shows "length (filter (\<lambda>c. c \<noteq> Missing) (group_of (map norm_cell years) vals y))
           = length (filter (\<lambda>c. norm_cell c = y) years)"
proof -
  have "filter (\<lambda>c. c \<noteq> Missing) (group_of (map norm_cell years) vals y)
          = group_of (map norm_cell years) vals y"
    using assms(1) set_group_of [of "map norm_cell years" vals y] by (auto simp: filter_id_conv)
  moreover have "length (group_of (map norm_cell years) vals y)
                   = length (filter (\<lambda>x. x = y) (map norm_cell years))"
    using assms(2) by (intro length_group_of) simp
  moreover have "length (filter (\<lambda>x. x = y) (map norm_cell years))
                   = length (filter (\<lambda>c. norm_cell c = y) years)"
    by (simp add: filter_map comp_def)
  ultimately show ?thesis by simp
qed

lemma row_count_change_eq:
  assumes "getcol df ''year'' = Inr years" and "getcol df col = Inr vals"
    and "Missing \<notin> set vals" and "length vals = length years"
  shows "row_count_change df = get_per_year_change col df AggCount"
proof -
  have "rows_per_year df = grouped col df AggCount"
    using assms by (simp add: rows_per_year_def grouped_count rows_are_counts)
  then show ?thesis by (simp add: row_count_change_def get_per_year_change_deltas)
qed

lemma main_kpi_raw_ex:
  "main_kpi sum_cells raw_ex All =
     Inr \<lparr>sales_total = Fin False 827, sales_change = ''6.7%'',
          profit_total = Fin False 60, profit_change = ''0.0%'',
          orders_total = 2, orders_change = ''-50.0%''\<rparr>"
  by (simp add: main_kpi_def load_data_raw_ex filter_data_def create_kpi_metrics_def
      df_ex_def eval_defs nunique_def change_of_def iloc_last_def)

lemma main_kpi_raw_ex_2020:
  "main_kpi sum_cells raw_ex (Year 2020) =
     Inr \<lparr>sales_total = Fin False 400, sales_change = ''0.0%'',
          profit_total = Fin False 30, profit_change = ''0.0%'',
          orders_total = 1, orders_change = ''0.0%''\<rparr>"
  by (simp add: main_kpi_def load_data_raw_ex filter_data_def select_rows_def create_kpi_metrics_def
      df_ex_def eval_defs nunique_def change_of_def series_get_def)

lemma main_kpi_raw_ex_2019:
  "main_kpi sum_cells raw_ex (Year 2019) =
     Inr \<lparr>sales_total = Fin False 0, sales_change = ''0%'',
          profit_total = Fin False 0, profit_change = ''0%'',
          orders_total = 0, orders_change = ''0%''\<rparr>"
  by (simp add: main_kpi_def load_data_raw_ex filter_data_def select_rows_def create_kpi_metrics_def
      df_ex_def eval_defs nunique_def change_of_def series_get_def)

lemma load_frame_blank_ex: "load_frame blank_raw_ex = Inr blank_ex"
  by (simp add: load_frame_def blank_raw_ex_def blank_ex_def getcol_def setcol_def year_cell_def
      dt_ex ns_per_day_def)

lemma delta_1_1: "delta_of (Fin False 1) (Fin False 1) = ''0.0%''"
  by (simp add: delta_of_def fsub_def fillna0_def)

lemma load_data_blank_ex:
  "load_data blank_raw_ex = Inr (blank_ex, [(N 2020, ''0.0%''), (N 2021, ''6.7%'')],
     [(N 2020, ''0.0%''), (N 2021, ''0.0%'')], [(N 2020, ''0.0%''), (N 2021, ''0.0%'')])"
proof -
  have "grouped ''Sales'' blank_ex AggSum = Inr [(N 2020, Fin False 400), (N 2021, Fin False 427)]"
    by (simp add: grouped_def blank_ex_def eval_defs)
  then have s: "get_per_year_change ''Sales'' blank_ex AggSum = Inr [(N 2020, ''0.0%''), (N 2021, ''6.7%'')]"
    by (simp add: get_per_year_change_deltas shift1_def delta_of_NaN delta_427_400)
  have "grouped ''Profit'' blank_ex AggSum = Inr [(N 2020, Fin False 30), (N 2021, Fin False 30)]"
    by (simp add: grouped_def blank_ex_def eval_defs)
  then have p: "get_per_year_change ''Profit'' blank_ex AggSum = Inr [(N 2020, ''0.0%''), (N 2021, ''0.0%'')]"
    by (simp add: get_per_year_change_deltas shift1_def delta_of_NaN delta_30_30)
  have "grouped ''Order ID'' blank_ex AggCount = Inr [(N 2020, Fin False 1), (N 2021, Fin False 1)]"
    by (simp add: grouped_def blank_ex_def eval_defs)
  then have o: "get_per_year_change ''Order ID'' blank_ex AggCount = Inr [(N 2020, ''0.0%''), (N 2021, ''0.0%'')]"
    by (simp add: get_per_year_change_deltas shift1_def delta_of_NaN delta_1_1)
  show ?thesis by (simp add: load_data_def load_frame_blank_ex s p o)
qed

lemma rows_per_year_blank_ex:
  "rows_per_year blank_ex = Inr [(N 2020, Fin False 2), (N 2021, Fin False 1)]"
  by (simp add: rows_per_year_def blank_ex_def eval_defs)

text \<open>
  The change shown on the Orders card is not computed from the number of rows of each
  year. In the sheet below the Order ID of one of the two rows of 2020 is empty:
  \<^verbatim>\<open>count\<close> leaves that row out, the series of \<^verbatim>\<open>load_data\<close> compares one order with
  one and the card shows \<^verbatim>\<open>0.0%\<close>, while the rows, two and then one, give
  \<^verbatim>\<open>-50.0%\<close>.
\<close>

theorem orders_row_count_counterexample:
  "load_data blank_raw_ex = Inr (blank_ex, [(N 2020, ''0.0%''), (N 2021, ''6.7%'')],
     [(N 2020, ''0.0%''), (N 2021, ''0.0%'')], [(N 2020, ''0.0%''), (N 2021, ''0.0%'')]) \<and>
   main_kpi sum_cells blank_raw_ex All =
     Inr \<lparr>sales_total = Fin False 827, sales_change = ''6.7%'',
          profit_total = Fin False 60, profit_change = ''0.0%'',
          orders_total = 2, orders_change = ''0.0%''\<rparr> \<and>
   rows_per_year blank_ex = Inr [(N 2020, Fin False 2), (N 2021, Fin False 1)] \<and>
   row_count_change blank_ex = Inr [(N 2020, ''0.0%''), (N 2021, ''-50.0%'')]"
proof -
  have "main_kpi sum_cells blank_raw_ex All =
     Inr \<lparr>sales_total = Fin False 827, sales_change = ''6.7%'',
          profit_total = Fin False 60, profit_change = ''0.0%'',
          orders_total = 2, orders_change = ''0.0%''\<rparr>"
    by (simp add: main_kpi_def load_data_blank_ex filter_data_def create_kpi_metrics_def
        blank_ex_def eval_defs nunique_def change_of_def iloc_last_def)
  moreover have "row_count_change blank_ex = Inr [(N 2020, ''0.0%''), (N 2021, ''-50.0%'')]"
    by (simp add: row_count_change_def rows_per_year_blank_ex shift1_def delta_of_NaN delta_1_2)
  ultimately show ?thesis by (simp add: load_data_blank_ex rows_per_year_blank_ex)
qed

text \<open>
  Claim C10, amended. Whenever the cards are computed, the selection is \<^verbatim>\<open>All\<close> or a
  year, and the headline of the Orders card is the number of distinct Order ID values of
  the filtered table (a line item of an order already seen adds nothing, missing
  identifiers are left out). The change shown with it is taken from the series computed on
  the loaded, unfiltered table: its years are the years of that table in ascending order,
  its first entry is \<^verbatim>\<open>0.0%\<close>, and the entry of a later year is the change from the
  number of Order ID entries that are present in the year before to the number present in
  that year, every line item counted. For \<^verbatim>\<open>All\<close> the card shows the last entry; for a
  year it shows the entry of that year, and \<^verbatim>\<open>0%\<close> when the table has no such year.
  When no Order ID is missing and the two columns are equally long, the series is the one
  computed from the number of rows of each year.
\<close>

theorem orders_kpi:
  assumes "main_kpi series_sum raw selected_year = Inr k"
  shows "\<exists>df0 df ids years ids0 orders.
     load_frame raw = Inr df0 \<and> filter_data df0 selected_year = Inr df \<and>
     getcol df ''Order ID'' = Inr ids \<and>
     orders_total k = card (norm_cell ` (set ids - {Missing})) \<and>
     getcol df0 ''year'' = Inr years \<and> getcol df0 ''Order ID'' = Inr ids0 \<and>
     get_per_year_change ''Order ID'' df0 AggCount = Inr orders \<and>
     map fst orders = group_keys years \<and>
     (\<forall>i<length orders. snd (orders ! i) =
        delta_of (dbl_of_rat (of_nat (length (filter (\<lambda>c. c \<noteq> Missing)
                     (group_of (map norm_cell years) ids0 (fst (orders ! i)))))))
          (if i = 0 then NaN
           else dbl_of_rat (of_nat (length (filter (\<lambda>c. c \<noteq> Missing)
                     (group_of (map norm_cell years) ids0 (fst (orders ! (i - 1))))))))) \<and>
     (selected_year = All \<longrightarrow> orders \<noteq> [] \<and> orders_change k = snd (last orders)) \<and>
     (\<forall>y. selected_year = Year y \<longrightarrow>
        (\<forall>i<length orders. fst (orders ! i) = N (of_int y) \<longrightarrow> orders_change k = snd (orders ! i)) \<and>
        (N (of_int y) \<notin> set (group_keys years) \<longrightarrow> orders_change k = ''0%'')) \<and>
     selected_year \<noteq> NoYear \<and>
     (Missing \<notin> set ids0 \<and> length ids0 = length years \<longrightarrow> row_count_change df0 = Inr orders)"
proof -
  obtain loaded where l: "load_data raw = Inr loaded"
    using assms by (cases "load_data raw") (simp_all add: main_kpi_def)
  then obtain df0 s p orders where df0: "load_frame raw = Inr df0"
    and loaded: "loaded = (df0, s, p, orders)"
    and o: "get_per_year_change ''Order ID'' df0 AggCount = Inr orders"
    by (rule load_data_InrD)
  obtain df where f: "filter_data df0 selected_year = Inr df"
    using assms l loaded by (cases "filter_data df0 selected_year") (simp_all add: main_kpi_def)
  have "create_kpi_metrics series_sum df s p orders selected_year = Inr k"
    using assms l loaded f by (simp add: main_kpi_def)
  then obtain ids where ids: "getcol df ''Order ID'' = Inr ids" and t: "orders_total k = nunique ids"
    and c: "change_of orders selected_year = Inr (orders_change k)"
    by (rule create_kpi_metrics_InrD)
  from o obtain years ids0 where y: "getcol df0 ''year'' = Inr years"
    and i0: "getcol df0 ''Order ID'' = Inr ids0"
    and keys: "map fst orders = group_keys years"
    and deltas: "\<forall>i<length orders. snd (orders ! i) =
        delta_of (dbl_of_rat (of_nat (length (filter (\<lambda>c. c \<noteq> Missing)
                     (group_of (map norm_cell years) ids0 (fst (orders ! i)))))))
          (if i = 0 then NaN
           else dbl_of_rat (of_nat (length (filter (\<lambda>c. c \<noteq> Missing)
                     (group_of (map norm_cell years) ids0 (fst (orders ! (i - 1))))))))"
    by (rule count_series)
  have d: "distinct (map fst orders)" by (simp add: keys distinct_keys)
  have a: "selected_year = All \<longrightarrow> orders \<noteq> [] \<and> orders_change k = snd (last orders)"
    using c change_of_All by blast
  have b: "\<forall>y. selected_year = Year y \<longrightarrow>
        (\<forall>i<length orders. fst (orders ! i) = N (of_int y) \<longrightarrow> orders_change k = snd (orders ! i)) \<and>
        (N (of_int y) \<notin> set (group_keys years) \<longrightarrow> orders_change k = ''0%'')"
    using c change_of_Year [OF _ d] keys by metis
  have n: "selected_year \<noteq> NoYear" using f filter_data_NoYear by blast
  have r: "Missing \<notin> set ids0 \<and> length ids0 = length years \<longrightarrow> row_count_change df0 = Inr orders"
    using row_count_change_eq [OF y i0] o by simp
  have tc: "orders_total k = card (norm_cell ` (set ids - {Missing}))"
    using t by (simp add: nunique_card)
  from df0 f ids tc y i0 o keys deltas a b n r show ?thesis
    by - (intro exI conjI, assumption+)
qed

theorem orders_kpi_witness:
  "main_kpi sum_cells raw_ex All =
     Inr \<lparr>sales_total = Fin False 827, sales_change = ''6.7%'',
          profit_total = Fin False 60, profit_change = ''0.0%'',
          orders_total = 2, orders_change = ''-50.0%''\<rparr> \<and>
   main_kpi sum_cells raw_ex (Year 2020) =
     Inr \<lparr>sales_total = Fin False 400, sales_change = ''0.0%'',
          profit_total = Fin False 30, profit_change = ''0.0%'',
          orders_total = 1, orders_change = ''0.0%''\<rparr> \<and>
   main_kpi sum_cells raw_ex (Year 2019) =
     Inr \<lparr>sales_total = Fin False 0, sales_change = ''0%'',
          profit_total = Fin False 0, profit_change = ''0%'',
          orders_total = 0, orders_change = ''0%''\<rparr> \<and>
   get_per_year_change ''Order ID'' df_ex AggCount = Inr [(N 2020, ''0.0%''), (N 2021, ''-50.0%'')] \<and>
   row_count_change df_ex = Inr [(N 2020, ''0.0%''), (N 2021, ''-50.0%'')] \<and>
   (2 :: nat) = card (norm_cell ` (set [S ''A-1'', S ''A-1'', S ''A-2''] - {Missing})) \<and>
   (1 :: nat) = card (norm_cell ` (set [S ''A-1'', S ''A-1''] - {Missing})) \<and>
   (0 :: nat) = card (norm_cell ` (set [] - {Missing}))"
proof -
  have y: "getcol df_ex ''year'' = Inr [N 2020, N 2020, N 2021]"
    and i: "getcol df_ex ''Order ID'' = Inr [S ''A-1'', S ''A-1'', S ''A-2'']"
    by (simp_all add: getcol_def df_ex_def)
  from orders_kpi [OF main_kpi_raw_ex] obtain df ids where
    "filter_data df_ex All = Inr df" "getcol df ''Order ID'' = Inr ids"
    and a: "(2 :: nat) = card (norm_cell ` (set ids - {Missing}))"
    and r: "row_count_change df_ex = Inr [(N 2020, ''0.0%''), (N 2021, ''-50.0%'')]"
    by (auto simp: load_frame_raw_ex orders_change_ex y i)
  then have "ids = [S ''A-1'', S ''A-1'', S ''A-2'']"
    by (auto simp: filter_data_def getcol_def df_ex_def)
  with a have 1: "(2 :: nat) = card (norm_cell ` (set [S ''A-1'', S ''A-1'', S ''A-2''] - {Missing}))"
    by simp
  from orders_kpi [OF main_kpi_raw_ex_2020] obtain df ids where
    "filter_data df_ex (Year 2020) = Inr df" "getcol df ''Order ID'' = Inr ids"
    and b: "(1 :: nat) = card (norm_cell ` (set ids - {Missing}))"
    by (auto simp: load_frame_raw_ex)
  then have "ids = [S ''A-1'', S ''A-1'']"
    by (auto simp: filter_data_def select_rows_def getcol_def df_ex_def)
  with b have 2: "(1 :: nat) = card (norm_cell ` (set [S ''A-1'', S ''A-1''] - {Missing}))"
    by simp
  from orders_kpi [OF main_kpi_raw_ex_2019] obtain df ids where
    "filter_data df_ex (Year 2019) = Inr df" "getcol df ''Order ID'' = Inr ids"
    and c: "(0 :: nat) = card (norm_cell ` (set ids - {Missing}))"
    by (auto simp: load_frame_raw_ex)
  then have "ids = []"
    by (auto simp: filter_data_def select_rows_def getcol_def df_ex_def)
  with c have 3: "(0 :: nat) = card (norm_cell ` (set [] - {Missing}))"
    by simp
  from 1 2 3 r show ?thesis
    by (simp only: main_kpi_raw_ex main_kpi_raw_ex_2020 main_kpi_raw_ex_2019 orders_change_ex
        simp_thms)
qed

subsection \<open>The chart functions and the table they are given\<close>

lemma seq_Inr: "seq p f df = Inr r \<longleftrightarrow> (\<exists>x d. p df = Inr (x, d) \<and> f x d = Inr r)"
  by (cases "p df") (auto simp: seq_def)

lemma calc_Inr: "calc r df = Inr (x, d) \<longleftrightarrow> r = Inr x \<and> d = df"
  by (cases r) (auto simp: calc_def)

lemma column_Inr: "column name df = Inr (x, d) \<longleftrightarrow> getcol df name = Inr x \<and> d = df"
  by (simp add: column_def calc_Inr)

lemma assign_Inr: "assign name vs df = Inr (u, d) \<longleftrightarrow> d = setcol df name vs"
  by (auto simp: assign_def)

lemma yield_Inr: "yield x df = Inr (y, d) \<longleftrightarrow> y = x \<and> d = df"
  by (auto simp: yield_def)

lemma leaves_table_yield: "leaves_table (yield x)"
  by (simp add: leaves_table_def yield_Inr)

lemma leaves_table_calc: "leaves_table (calc r)"
  by (simp add: leaves_table_def calc_Inr)

lemma leaves_table_column: "leaves_table (column name)"
  by (simp add: leaves_table_def column_Inr)

lemma leaves_table_whole: "leaves_table whole_table"
  by (simp add: leaves_table_def whole_table_def)

lemma leaves_table_seq:
  assumes "leaves_table p" and "\<And>x. leaves_table (f x)"
  shows "leaves_table (seq p f)"
  using assms unfolding leaves_table_def seq_Inr by blast

lemmas leaves_table_intros = leaves_table_seq leaves_table_yield leaves_table_calc
  leaves_table_column leaves_table_whole

lemma leaves_table_category: "leaves_table create_category_performance_chart"
  unfolding create_category_performance_chart_def by (intro leaves_table_intros)

lemma leaves_table_distribution: "leaves_table create_order_distribution_chart"
  unfolding create_order_distribution_chart_def by (intro leaves_table_intros)

lemma leaves_table_top_products: "leaves_table (create_top_products_chart metric title)"
  unfolding create_top_products_chart_def by (intro leaves_table_intros)

lemma leaves_table_product_charts: "leaves_table create_product_charts"
  unfolding create_product_charts_def by (intro leaves_table_intros leaves_table_top_products)

lemma leaves_table_gauge: "leaves_table (create_shipping_gauge series_sum)"
  unfolding create_shipping_gauge_def by (intro leaves_table_intros)

lemma leaves_table_sales_trend: "leaves_table create_sales_trend_chart"
  unfolding create_sales_trend_chart_def by (intro leaves_table_intros)

lemma put_same: "map_of cs name = Some vs \<Longrightarrow> put name vs cs = cs"
  by (induction cs) (auto split: if_splits)

lemma setcol_same: "getcol df name = Inr vs \<Longrightarrow> setcol df name vs = df"
  by (cases "map_of (cols df) name") (simp_all add: getcol_def setcol_def put_same)

lemma create_monthly_sales_trend_InrD:
  assumes "create_monthly_sales_trend df = Inr (fig, df')"
  obtains od dates years sales ms where
    "getcol df ''Order Date'' = Inr od" and "to_datetime od = Inr dates"
    and "df' = setcol (setcol df ''Month'' (map month_cell dates)) ''Month_num''
                 (map month_num_cell dates)"
    and "getcol df' ''year'' = Inr years" and "getcol df' ''Sales'' = Inr sales"
    and "monthly_sales years (map month_cell dates) (map month_num_cell dates) sales = Inr ms"
    and "fig = traces ms"
proof -
  from assms obtain od dates od2 dates2 years months nums sales ms where
    1: "getcol df ''Order Date'' = Inr od" and 2: "to_datetime od = Inr dates"
    and 3: "getcol (setcol df ''Month'' (map month_cell dates)) ''Order Date'' = Inr od2"
    and 4: "to_datetime od2 = Inr dates2"
    and 5: "df' = setcol (setcol df ''Month'' (map month_cell dates)) ''Month_num''
                 (map month_num_cell dates2)"
    and 6: "getcol df' ''year'' = Inr years" and 7: "getcol df' ''Month'' = Inr months"
    and 8: "getcol df' ''Month_num'' = Inr nums" and 9: "getcol df' ''Sales'' = Inr sales"
    and 10: "monthly_sales years months nums sales = Inr ms" and 11: "fig = traces ms"
    unfolding create_monthly_sales_trend_def seq_Inr column_Inr calc_Inr assign_Inr and_then_Inr
    by auto
  from 1 3 have "od2 = od" by (simp add: getcol_setcol_other)
  with 2 4 have d: "dates2 = dates" by simp
  from 7 have m: "months = map month_cell dates"
    by (simp add: 5 getcol_setcol_other getcol_setcol_same)
  from 8 have n: "nums = map month_num_cell dates"
    by (simp add: 5 d getcol_setcol_same)
  from 1 2 5 6 9 10 11 show ?thesis unfolding d m n by (rule that)
qed

lemma create_monthly_sales_trend_again:
  assumes "create_monthly_sales_trend df = Inr (fig, df')"
  shows "create_monthly_sales_trend df' = Inr (fig, df')"
proof -
  from assms obtain od dates years sales ms where
    1: "getcol df ''Order Date'' = Inr od" and 2: "to_datetime od = Inr dates"
    and 3: "df' = setcol (setcol df ''Month'' (map month_cell dates)) ''Month_num''
                 (map month_num_cell dates)"
    and 4: "getcol df' ''year'' = Inr years" and 5: "getcol df' ''Sales'' = Inr sales"
    and 6: "monthly_sales years (map month_cell dates) (map month_num_cell dates) sales = Inr ms"
    and 7: "fig = traces ms"
    by (rule create_monthly_sales_trend_InrD)
  have od: "getcol df' ''Order Date'' = Inr od" using 1 by (simp add: 3 getcol_setcol_other)
  have m: "getcol df' ''Month'' = Inr (map month_cell dates)"
    by (simp add: 3 getcol_setcol_other getcol_setcol_same)
  have n: "getcol df' ''Month_num'' = Inr (map month_num_cell dates)"
    by (simp add: 3 getcol_setcol_same)
  have sm: "setcol df' ''Month'' (map month_cell dates) = df'" using m by (rule setcol_same)
  have sn: "setcol df' ''Month_num'' (map month_num_cell dates) = df'" using n by (rule setcol_same)
  show ?thesis
    by (simp add: create_monthly_sales_trend_def seq_def column_def calc_def assign_def
        od 2 sm sn m n 4 5 6 7)
qed

lemma create_monthly_sales_trend_columns:
  assumes "create_monthly_sales_trend df = Inr (fig, df')"
    and "getcol df2 ''Order Date'' = getcol df ''Order Date''"
    and "getcol df2 ''year'' = getcol df ''year''" and "getcol df2 ''Sales'' = getcol df ''Sales''"
  shows "\<exists>df2'. create_monthly_sales_trend df2 = Inr (fig, df2')"
proof -
  from assms(1) obtain od dates years sales ms where
    1: "getcol df ''Order Date'' = Inr od" and 2: "to_datetime od = Inr dates"
    and 3: "df' = setcol (setcol df ''Month'' (map month_cell dates)) ''Month_num''
                 (map month_num_cell dates)"
    and 4: "getcol df' ''year'' = Inr years" and 5: "getcol df' ''Sales'' = Inr sales"
    and 6: "monthly_sales years (map month_cell dates) (map month_num_cell dates) sales = Inr ms"
    and 7: "fig = traces ms"
    by (rule create_monthly_sales_trend_InrD)
  let ?d1 = "setcol df2 ''Month'' (map month_cell dates)"
  let ?d2 = "setcol ?d1 ''Month_num'' (map month_num_cell dates)"
  have od: "getcol df2 ''Order Date'' = Inr od" using 1 assms(2) by simp
  have od1: "getcol ?d1 ''Order Date'' = Inr od" using od by (simp add: getcol_setcol_other)
  have y: "getcol ?d2 ''year'' = Inr years"
    using 4 assms(3) by (simp add: 3 getcol_setcol_other)
  have s: "getcol ?d2 ''Sales'' = Inr sales"
    using 5 assms(4) by (simp add: 3 getcol_setcol_other)
  have m: "getcol ?d2 ''Month'' = Inr (map month_cell dates)"
    by (simp add: getcol_setcol_other getcol_setcol_same)
  have n: "getcol ?d2 ''Month_num'' = Inr (map month_num_cell dates)"
    by (simp add: getcol_setcol_same)
  have "create_monthly_sales_trend df2 = Inr (fig, ?d2)"
    by (simp add: create_monthly_sales_trend_def seq_def column_def calc_def assign_def
        od 2 od1 y s m n 6 7)
  then show ?thesis by blast
qed

subsection \<open>The chart functions on the example table\<close>

lemma month_ex:
  "month_abbr 1583366400000000000 = ''Mar''" "month_abbr 1625097600000000000 = ''Jul''"
  by (simp_all add: month_abbr_def dt_ex MONTHS_def)

lemma fdiv_10_3: "round_dbl s (10 / 3) = Fin s (7505999378950827 / 2251799813685248)"
  using round_dbl_eqI [of 1 "10 / 3" 7505999378950827 s] by (simp add: pow2_def)

lemma fdiv_1_25: "round_dbl s (1 / 25) = Fin s (5764607523034235 / 144115188075855872)"
  using round_dbl_eqI [of "- 5" "1 / 25" 5764607523034235 s] by (simp add: pow2_def)

lemma fdiv_1_50: "round_dbl s (1 / 50) = Fin s (5764607523034235 / 288230376151711744)"
  using round_dbl_eqI [of "- 6" "1 / 50" 5764607523034235 s] by (simp add: pow2_def)

lemma round_mean_ex: "round_half_even (7505999378950827 / 2251799813685248) = 3"
  by (rule round_half_even_eqI) simp

lemmas prog_defs = seq_def column_def calc_def assign_def yield_def whole_table_def

lemma chart_ex_columns:
  "getcol chart_ex ''Order ID'' = Inr [S ''A-1'', S ''A-1'', S ''A-2'']"
  "getcol chart_ex ''Order Date'' = Inr [T 1583366400000000000, T 1583366400000000000, T 1625097600000000000]"
  "getcol chart_ex ''Product Name'' = Inr [S ''Desk'', S ''Lamp'', S ''Desk'']"
  "getcol chart_ex ''Category'' = Inr [S ''Furniture'', S ''Technology'', S ''Furniture'']"
  "getcol chart_ex ''Region'' = Inr [S ''West'', S ''West'', S ''East'']"
  "getcol chart_ex ''Segment'' = Inr [S ''Consumer'', S ''Corporate'', S ''Consumer'']"
  "getcol chart_ex ''Sales'' = Inr [N 150, N 250, N 427]"
  "getcol chart_ex ''Profit'' = Inr [N 10, N 20, N 30]"
  "getcol chart_ex ''year'' = Inr [N 2020, N 2020, N 2021]"
  "getcol chart_ex ''days to ship'' = Inr [N 4, N 4, N 2]"
  by (simp_all add: getcol_def chart_ex_def)

lemma category_chart_ex:
  "create_category_performance_chart chart_ex =
     Inr ([\<lparr>sc_name = S ''Furniture'', sc_x = Fin False 577, sc_y = Fin False 40,
             sc_size = [Fin False (5764607523034235 / 144115188075855872)],
             sc_color = ''#005C53''\<rparr>,
           \<lparr>sc_name = S ''Technology'', sc_x = Fin False 250, sc_y = Fin False 20,
             sc_size = [Fin False (5764607523034235 / 288230376151711744)],
             sc_color = ''#042940''\<rparr>], chart_ex)"
proof -
  have k: "group_keys [S ''Furniture'', S ''Technology'', S ''Furniture''] = [S ''Furniture'', S ''Technology'']"
    by (simp add: group_keys_def)
  have p: "category_perf [S ''Furniture'', S ''Technology'', S ''Furniture''] [N 150, N 250, N 427]
             [N 10, N 20, N 30] [S ''A-1'', S ''A-1'', S ''A-2'']
           = Inr [(S ''Furniture'', Fin False 577, Fin False 40, Fin False 2),
                  (S ''Technology'', Fin False 250, Fin False 20, Fin False 1)]"
    by (simp add: category_perf_def k group_of_def sum_cells_def kahan_step_def fsub_def Let_def
        count_cells_def dbl_of_rat_numeral round_dbl_numeral)
  show ?thesis
    by (simp add: create_category_performance_chart_def prog_defs chart_ex_columns p
        category_trace_def iloc0_def dict_item_def CUSTOM_COLORS_def fdiv_1_25 fdiv_1_50)
qed

lemma rgba_ex:
  "rgba ''#9FC131'' = Inr ''rgba(159, 193, 49, 0.7)''"
  "rgba ''#005C53'' = Inr ''rgba(0, 92, 83, 0.7)''"
  by (simp_all add: rgba_def int16_def hex_digit_def digits_large)

lemma distribution_chart_ex:
  "create_order_distribution_chart chart_ex =
     Inr (\<lparr>sb_labels = [Plain (S ''East''), Plain (S ''West''),
                       Dashed (S ''East'') (S ''Consumer''), Dashed (S ''West'') (S ''Consumer''),
                       Dashed (S ''West'') (S ''Corporate'')],
           sb_parents = [S '''', S '''', S ''East'', S ''West'', S ''West''],
           sb_values = [1, 2, 1, 1, 1],
           sb_colors = [''#9FC131'', ''#005C53'', ''rgba(159, 193, 49, 0.7)'',
                        ''rgba(0, 92, 83, 0.7)'', ''rgba(0, 92, 83, 0.7)'']\<rparr>, chart_ex)"
proof -
  have d: "order_dist [S ''West'', S ''West'', S ''East''] [S ''Consumer'', S ''Corporate'', S ''Consumer'']
      = [((S ''East'', S ''Consumer''), 1), ((S ''West'', S ''Consumer''), 1),
         ((S ''West'', S ''Corporate''), 1)]"
    by (simp add: order_dist_def pair_keys_def)
  show ?thesis
    by (simp add: create_order_distribution_chart_def prog_defs chart_ex_columns d unique_def
        region_entry_def row_entry_def dict_item_def region_palette_def rgba_ex)
qed

lemma top_products_ex:
  "create_top_products_chart ''Sales'' ''Top 10 Selling Products'' chart_ex =
     Inr (\<lparr>chart_title = ''Top 10 Selling Products'',
            chart_data = [(S ''Desk'', Fin False 577), (S ''Lamp'', Fin False 250)]\<rparr>, chart_ex)"
  "create_top_products_chart ''Profit'' ''Top 10 Most Profitable Products'' chart_ex =
     Inr (\<lparr>chart_title = ''Top 10 Most Profitable Products'',
            chart_data = [(S ''Desk'', Fin False 40), (S ''Lamp'', Fin False 20)]\<rparr>, chart_ex)"
  by (simp_all add: create_top_products_chart_def prog_defs chart_ex_columns group_keys_def
      group_of_def sum_cells_def kahan_step_def fsub_def Let_def dbl_of_rat_numeral
      round_dbl_numeral nlargest_def)

lemma product_charts_ex:
  "create_product_charts chart_ex =
     Inr ((\<lparr>chart_title = ''Top 10 Selling Products'',
             chart_data = [(S ''Desk'', Fin False 577), (S ''Lamp'', Fin False 250)]\<rparr>,
           \<lparr>chart_title = ''Top 10 Most Profitable Products'',
             chart_data = [(S ''Desk'', Fin False 40), (S ''Lamp'', Fin False 20)]\<rparr>), chart_ex)"
  by (simp add: create_product_charts_def seq_def yield_def top_products_ex)

lemma shipping_gauge_ex:
  "create_shipping_gauge sum_cells chart_ex =
     Inr (\<lparr>gauge_value = 3, gauge_range = (Fin False 2, Fin False 4)\<rparr>, chart_ex)"
proof -
  have m: "series_mean sum_cells [N 4, N 4, N 2] = Inr (Fin False (7505999378950827 / 2251799813685248))"
    by (simp add: series_mean_def sum_cells_def kahan_step_def fsub_def Let_def count_cells_def
        dbl_of_rat_numeral round_dbl_numeral fdiv_10_3)
  have lo: "series_min [N 4, N 4, N 2] = Inr (Fin False 2)"
    by (simp add: series_min_def dbl_of_rat_numeral)
  have hi: "series_max [N 4, N 4, N 2] = Inr (Fin False 4)"
    by (simp add: series_max_def dbl_of_rat_numeral)
  show ?thesis
    by (simp add: create_shipping_gauge_def prog_defs chart_ex_columns m lo hi round_mean_ex)
qed

lemma sales_trend_ex:
  "create_sales_trend_chart chart_ex =
     Inr (\<lparr>layered_title = ''Sales trends for Product Categories over the years'',
            layered_data = chart_ex,
            color_domain = [S ''Furniture'', S ''Office Supplies'', S ''Technology''],
            color_range = [''#005C53'', ''#9FC131'', ''#042940'']\<rparr>, chart_ex)"
  by (simp add: create_sales_trend_chart_def prog_defs CUSTOM_COLORS_def)

lemma monthly_sales_ex:
  "monthly_sales [N 2020, N 2020, N 2021] [S ''Mar'', S ''Mar'', S ''Jul''] [N 3, N 3, N 7]
     [N 150, N 250, N 427] =
     Inr [((N 2020, S ''Mar'', N 3), Fin False 400), ((N 2021, S ''Jul'', N 7), Fin False 427)]"
  by (simp add: monthly_sales_def month_keys_def group_of_def sum_cells_def kahan_step_def
      fsub_def Let_def dbl_of_rat_numeral round_dbl_numeral)

lemma monthly_trend_ex:
  "create_monthly_sales_trend chart_ex =
     Inr ([\<lparr>trace_year = N 2020, trace_x = [S ''Mar''], trace_y = [Fin False 400],
             trace_color = ''#005C53''\<rparr>,
           \<lparr>trace_year = N 2021, trace_x = [S ''Jul''], trace_y = [Fin False 427],
             trace_color = ''#9FC131''\<rparr>], chart_month_ex)"
proof -
  have s: "setcol (setcol chart_ex ''Month'' [S ''Mar'', S ''Mar'', S ''Jul'']) ''Month_num''
             [N 3, N 3, N 7] = chart_month_ex"
    by (simp add: setcol_def chart_ex_def chart_month_ex_def)
  have c: "getcol chart_month_ex ''year'' = Inr [N 2020, N 2020, N 2021]"
    "getcol chart_month_ex ''Month'' = Inr [S ''Mar'', S ''Mar'', S ''Jul'']"
    "getcol chart_month_ex ''Month_num'' = Inr [N 3, N 3, N 7]"
    "getcol chart_month_ex ''Sales'' = Inr [N 150, N 250, N 427]"
    by (simp_all add: getcol_def chart_month_ex_def)
  show ?thesis
    by (simp add: create_monthly_sales_trend_def prog_defs chart_ex_columns getcol_setcol_other
        month_cell_def month_num_cell_def month_ex dt_ex s c monthly_sales_ex traces_def
        unique_def color_palette_def)
qed

subsection \<open>What the chart functions do to the table\<close>

text \<open>
  The claim that every chart function leaves its input table unchanged fails for
  \<^verbatim>\<open>create_monthly_sales_trend\<close>: after the call the example table has the two columns
  \<^verbatim>\<open>Month\<close> and \<^verbatim>\<open>Month_num\<close> that it did not have before.
\<close>

theorem chart_purity_counterexample:
  "create_monthly_sales_trend chart_ex =
     Inr ([\<lparr>trace_year = N 2020, trace_x = [S ''Mar''], trace_y = [Fin False 400],
             trace_color = ''#005C53''\<rparr>,
           \<lparr>trace_year = N 2021, trace_x = [S ''Jul''], trace_y = [Fin False 427],
             trace_color = ''#9FC131''\<rparr>], chart_month_ex) \<and>
   chart_month_ex \<noteq> chart_ex \<and>
   map fst (cols chart_month_ex) = map fst (cols chart_ex) @ [''Month'', ''Month_num'']"
  by (simp add: monthly_trend_ex) (simp add: chart_month_ex_def chart_ex_def)

text \<open>
  Claim C7, amended. Of the chart functions, \<^verbatim>\<open>create_category_performance_chart\<close>,
  \<^verbatim>\<open>create_order_distribution_chart\<close>, \<^verbatim>\<open>create_top_products_chart\<close>,
  \<^verbatim>\<open>create_product_charts\<close>, \<^verbatim>\<open>create_shipping_gauge\<close> and
  \<^verbatim>\<open>create_sales_trend_chart\<close> return with the table they were given unchanged.
  \<^verbatim>\<open>create_monthly_sales_trend\<close> is the exception: it assigns the columns \<^verbatim>\<open>Month\<close> and
  \<^verbatim>\<open>Month_num\<close>, derived from the Order Date, to the table it is given, and leaves the row
  labels and every other column as they were. Nothing else is carried from one call to the
  next: a second call on the table it has left returns the same figure and the same table,
  and the figure is the same on every table with the same Order Date, year and Sales
  columns, whatever \<^verbatim>\<open>Month\<close> and \<^verbatim>\<open>Month_num\<close> held before.
\<close>

theorem chart_functions_effect:
  "(\<forall>fig df'. create_category_performance_chart df = Inr (fig, df') \<longrightarrow> df' = df) \<and>
   (\<forall>fig df'. create_order_distribution_chart df = Inr (fig, df') \<longrightarrow> df' = df) \<and>
   (\<forall>chart df'. create_top_products_chart metric title df = Inr (chart, df') \<longrightarrow> df' = df) \<and>
   (\<forall>charts df'. create_product_charts df = Inr (charts, df') \<longrightarrow> df' = df) \<and>
   (\<forall>fig df'. create_shipping_gauge series_sum df = Inr (fig, df') \<longrightarrow> df' = df) \<and>
   (\<forall>chart df'. create_sales_trend_chart df = Inr (chart, df') \<longrightarrow> df' = df) \<and>
   (\<forall>fig df'. create_monthly_sales_trend df = Inr (fig, df') \<longrightarrow>
      (\<exists>od dates. getcol df ''Order Date'' = Inr od \<and> to_datetime od = Inr dates \<and>
         getcol df' ''Month'' = Inr (map month_cell dates) \<and>
         getcol df' ''Month_num'' = Inr (map month_num_cell dates)) \<and>
      idx df' = idx df \<and>
      (\<forall>n. n \<noteq> ''Month'' \<and> n \<noteq> ''Month_num'' \<longrightarrow> getcol df' n = getcol df n) \<and>
      create_monthly_sales_trend df' = Inr (fig, df') \<and>
      (\<forall>df2. getcol df2 ''Order Date'' = getcol df ''Order Date'' \<and>
             getcol df2 ''year'' = getcol df ''year'' \<and> getcol df2 ''Sales'' = getcol df ''Sales'' \<longrightarrow>
         (\<exists>df2'. create_monthly_sales_trend df2 = Inr (fig, df2'))))"
proof (intro conjI allI impI)
  fix fig df'
  assume a: "create_monthly_sales_trend df = Inr (fig, df')"
  then obtain od dates where 1: "getcol df ''Order Date'' = Inr od" and 2: "to_datetime od = Inr dates"
    and 3: "df' = setcol (setcol df ''Month'' (map month_cell dates)) ''Month_num''
                 (map month_num_cell dates)"
    by (rule create_monthly_sales_trend_InrD)
  have "getcol df' ''Month'' = Inr (map month_cell dates)"
    by (simp add: 3 getcol_setcol_other getcol_setcol_same)
  moreover have "getcol df' ''Month_num'' = Inr (map month_num_cell dates)"
    by (simp add: 3 getcol_setcol_same)
  ultimately show "\<exists>od dates. getcol df ''Order Date'' = Inr od \<and> to_datetime od = Inr dates \<and>
         getcol df' ''Month'' = Inr (map month_cell dates) \<and>
         getcol df' ''Month_num'' = Inr (map month_num_cell dates)"
    using 1 2 by blast
  show "idx df' = idx df" by (simp add: 3 setcol_def)
  show "create_monthly_sales_trend df' = Inr (fig, df')"
    using a by (rule create_monthly_sales_trend_again)
  show "\<exists>df2'. create_monthly_sales_trend df2 = Inr (fig, df2')"
    if "getcol df2 ''Order Date'' = getcol df ''Order Date'' \<and>
        getcol df2 ''year'' = getcol df ''year'' \<and> getcol df2 ''Sales'' = getcol df ''Sales''" for df2
    using create_monthly_sales_trend_columns [OF a, of df2] that by blast
  fix n
  assume "n \<noteq> ''Month'' \<and> n \<noteq> ''Month_num''"
  then show "getcol df' n = getcol df n" by (simp add: 3 getcol_setcol_other)
qed (use leaves_table_category leaves_table_distribution leaves_table_top_products
      leaves_table_product_charts leaves_table_gauge leaves_table_sales_trend
    in \<open>auto simp: leaves_table_def\<close>)

theorem chart_functions_effect_witness:
  "create_category_performance_chart chart_ex =
     Inr ([\<lparr>sc_name = S ''Furniture'', sc_x = Fin False 577, sc_y = Fin False 40,
             sc_size = [Fin False (5764607523034235 / 144115188075855872)],
             sc_color = ''#005C53''\<rparr>,
           \<lparr>sc_name = S ''Technology'', sc_x = Fin False 250, sc_y = Fin False 20,
             sc_size = [Fin False (5764607523034235 / 288230376151711744)],
             sc_color = ''#042940''\<rparr>], chart_ex) \<and>
   create_order_distribution_chart chart_ex =
     Inr (\<lparr>sb_labels = [Plain (S ''East''), Plain (S ''West''),
                       Dashed (S ''East'') (S ''Consumer''), Dashed (S ''West'') (S ''Consumer''),
                       Dashed (S ''West'') (S ''Corporate'')],
           sb_parents = [S '''', S '''', S ''East'', S ''West'', S ''West''],
           sb_values = [1, 2, 1, 1, 1],
           sb_colors = [''#9FC131'', ''#005C53'', ''rgba(159, 193, 49, 0.7)'',
                        ''rgba(0, 92, 83, 0.7)'', ''rgba(0, 92, 83, 0.7)'']\<rparr>, chart_ex) \<and>
   create_top_products_chart ''Sales'' ''Top 10 Selling Products'' chart_ex =
     Inr (\<lparr>chart_title = ''Top 10 Selling Products'',
            chart_data = [(S ''Desk'', Fin False 577), (S ''Lamp'', Fin False 250)]\<rparr>, chart_ex) \<and>
   create_product_charts chart_ex =
     Inr ((\<lparr>chart_title = ''Top 10 Selling Products'',
             chart_data = [(S ''Desk'', Fin False 577), (S ''Lamp'', Fin False 250)]\<rparr>,
           \<lparr>chart_title = ''Top 10 Most Profitable Products'',
             chart_data = [(S ''Desk'', Fin False 40), (S ''Lamp'', Fin False 20)]\<rparr>), chart_ex) \<and>
   create_shipping_gauge sum_cells chart_ex =
     Inr (\<lparr>gauge_value = 3, gauge_range = (Fin False 2, Fin False 4)\<rparr>, chart_ex) \<and>
   create_sales_trend_chart chart_ex =
     Inr (\<lparr>layered_title = ''Sales trends for Product Categories over the years'',
            layered_data = chart_ex,
            color_domain = [S ''Furniture'', S ''Office Supplies'', S ''Technology''],
            color_range = [''#005C53'', ''#9FC131'', ''#042940'']\<rparr>, chart_ex) \<and>
   create_monthly_sales_trend chart_ex =
     Inr ([\<lparr>trace_year = N 2020, trace_x = [S ''Mar''], trace_y = [Fin False 400],
             trace_color = ''#005C53''\<rparr>,
           \<lparr>trace_year = N 2021, trace_x = [S ''Jul''], trace_y = [Fin False 427],
             trace_color = ''#9FC131''\<rparr>], chart_month_ex) \<and>
   create_monthly_sales_trend chart_month_ex =
     Inr ([\<lparr>trace_year = N 2020, trace_x = [S ''Mar''], trace_y = [Fin False 400],
             trace_color = ''#005C53''\<rparr>,
           \<lparr>trace_year = N 2021, trace_x = [S ''Jul''], trace_y = [Fin False 427],
             trace_color = ''#9FC131''\<rparr>], chart_month_ex) \<and>
   idx chart_month_ex = idx chart_ex \<and>
   getcol chart_month_ex ''Sales'' = getcol chart_ex ''Sales'' \<and>
   getcol chart_month_ex ''Month'' = Inr [S ''Mar'', S ''Mar'', S ''Jul''] \<and>
   getcol chart_month_ex ''Month_num'' = Inr [N 3, N 3, N 7]"
proof -
  note e = chart_functions_effect [of chart_ex "''Sales''" "''Top 10 Selling Products''" sum_cells]
  from e monthly_trend_ex have i: "idx chart_month_ex = idx chart_ex"
    and o: "\<forall>n. n \<noteq> ''Month'' \<and> n \<noteq> ''Month_num'' \<longrightarrow> getcol chart_month_ex n = getcol chart_ex n"
    and a: "create_monthly_sales_trend chart_month_ex =
     Inr ([\<lparr>trace_year = N 2020, trace_x = [S ''Mar''], trace_y = [Fin False 400],
             trace_color = ''#005C53''\<rparr>,
           \<lparr>trace_year = N 2021, trace_x = [S ''Jul''], trace_y = [Fin False 427],
             trace_color = ''#9FC131''\<rparr>], chart_month_ex)"
    and m: "\<exists>od dates. getcol chart_ex ''Order Date'' = Inr od \<and> to_datetime od = Inr dates \<and>
         getcol chart_month_ex ''Month'' = Inr (map month_cell dates) \<and>
         getcol chart_month_ex ''Month_num'' = Inr (map month_num_cell dates)"
    by blast+
  from o have s: "getcol chart_month_ex ''Sales'' = getcol chart_ex ''Sales''" by simp
  from m have c: "getcol chart_month_ex ''Month'' = Inr [S ''Mar'', S ''Mar'', S ''Jul'']"
    "getcol chart_month_ex ''Month_num'' = Inr [N 3, N 3, N 7]"
    by (auto simp: chart_ex_columns month_cell_def month_num_cell_def month_ex dt_ex)
  from i s a c show ?thesis
    by (simp only: category_chart_ex distribution_chart_ex top_products_ex product_charts_ex
        shipping_gauge_ex sales_trend_ex monthly_trend_ex simp_thms)
qed

end
